theory Spec2Isabelle
  imports Main "HOL-Library.Word"
begin

section \<open>Strings, bytes and the two regular-expression helpers\<close>

text \<open>
  A Go string is a sequence of bytes; \<^typ>\<open>string\<close> is a list of 8-bit characters.
  The package \<^verbatim>\<open>regexp\<close> reads its input rune by rune: a well-formed UTF-8 sequence of
  two to four bytes is one rune, every other byte of 0x80 and above is the one-byte rune
  U+FFFD. \<open>rune_width\<close> is the number of bytes of the first rune, after the acceptance
  table of \<^verbatim>\<open>utf8.DecodeRuneInString\<close>.
\<close>

definition byte :: "char \<Rightarrow> nat" where
  "byte c = of_char c"

definition in_range :: "nat \<Rightarrow> nat \<Rightarrow> char \<Rightarrow> bool" where
  "in_range lo hi c = (lo \<le> byte c \<and> byte c \<le> hi)"

fun rune_width :: "string \<Rightarrow> nat" where
  "rune_width [] = 0"
| "rune_width (c # cs) =
     (let x = byte c in
      if x < 0xC2 then 1
      else if x \<le> 0xDF then
        (case cs of
           b1 # _ \<Rightarrow> if in_range 0x80 0xBF b1 then 2 else 1
         | _ \<Rightarrow> 1)
      else if x \<le> 0xEF then
        (case cs of
           b1 # b2 # _ \<Rightarrow>
             if in_range (if x = 0xE0 then 0xA0 else 0x80) (if x = 0xED then 0x9F else 0xBF) b1
                \<and> in_range 0x80 0xBF b2
             then 3 else 1
         | _ \<Rightarrow> 1)
      else if x \<le> 0xF4 then
        (case cs of
           b1 # b2 # b3 # _ \<Rightarrow>
             if in_range (if x = 0xF0 then 0x90 else 0x80) (if x = 0xF4 then 0x8F else 0xBF) b1
                \<and> in_range 0x80 0xBF b2 \<and> in_range 0x80 0xBF b3
             then 4 else 1
         | _ \<Rightarrow> 1)
      else 1)"

abbreviation hyphen :: char where
  "hyphen \<equiv> CHR ''-''"

abbreviation backtick :: char where
  "backtick \<equiv> CHR 0x60"

text \<open>The character class \<^verbatim>\<open>[a-zA-Z0-9\-_]\<close> of \<^verbatim>\<open>sanitizeName\<close>.\<close>

definition is_name_char :: "char \<Rightarrow> bool" where
  "is_name_char c =
     (in_range 0x61 0x7A c \<or> in_range 0x41 0x5A c \<or> in_range 0x30 0x39 c
      \<or> c = hyphen \<or> c = CHR ''_'')"

text \<open>
  \<^verbatim>\<open>reg.ReplaceAllString(name, "-")\<close> for \<^verbatim>\<open>[^a-zA-Z0-9\-_]\<close>: every rune outside the
  class becomes one hyphen. A rune that starts with a byte of 0x80 or above is never in
  the class, whatever its width.
\<close>

function replaceInvalid :: "string \<Rightarrow> string" where
  "replaceInvalid [] = []"
| "replaceInvalid (c # cs) =
     (if byte c < 0x80 then (if is_name_char c then c else hyphen) # replaceInvalid cs
      else hyphen # replaceInvalid (drop (rune_width (c # cs) - 1) cs))"
  by pat_completeness auto
termination
  by (relation "measure length") auto

text \<open>\<^verbatim>\<open>reg2.ReplaceAllString(sanitized, "-")\<close> for \<^verbatim>\<open>-+\<close>: every maximal run of hyphens
  becomes one hyphen.\<close>

function collapseHyphens :: "string \<Rightarrow> string" where
  "collapseHyphens [] = []"
| "collapseHyphens (c # cs) =
     (if c = hyphen then hyphen # collapseHyphens (dropWhile (\<lambda>d. d = hyphen) cs)
      else c # collapseHyphens cs)"
  by pat_completeness auto
termination
  by (relation "measure length") (auto simp: length_dropWhile_le less_Suc_eq_le)

text \<open>\<^verbatim>\<open>strings.Trim(s, cutset)\<close> for a cutset of one ASCII character.\<close>

definition Trim :: "string \<Rightarrow> char \<Rightarrow> string" where
  "Trim s c = rev (dropWhile (\<lambda>d. d = c) (rev (dropWhile (\<lambda>d. d = c) s)))"

definition sanitizeName :: "string \<Rightarrow> string" where
  "sanitizeName name = Trim (collapseHyphens (replaceInvalid name)) hyphen"

text \<open>A run of two or more hyphens somewhere in the string.\<close>

fun has_hyphen_run :: "string \<Rightarrow> bool" where
  "has_hyphen_run (a # b # cs) = ((a = hyphen \<and> b = hyphen) \<or> has_hyphen_run (b # cs))"
| "has_hyphen_run _ = False"

subsection \<open>The rule patterns\<close>

text \<open>
  The three patterns of \<^verbatim>\<open>parseRule\<close> are \<^verbatim>\<open>KW\(\s*`([^`]+)`\s*\)\<close> for a keyword
  \<^verbatim>\<open>KW\<close>. The class \<^verbatim>\<open>\s\<close> of Go's regexp is tab, newline, form feed, carriage return
  and space. No rune of two or more bytes contains a backtick byte and U+FFFD is accepted
  by \<^verbatim>\<open>[^`]\<close>, so matching byte by byte is matching rune by rune here.
\<close>

definition is_space :: "char \<Rightarrow> bool" where
  "is_space c = (c = CHR 0x09 \<or> c = CHR 0x0A \<or> c = CHR 0x0C \<or> c = CHR 0x0D \<or> c = CHR '' '')"

fun strip_prefix :: "string \<Rightarrow> string \<Rightarrow> string option" where
  "strip_prefix [] s = Some s"
| "strip_prefix (p # ps) [] = None"
| "strip_prefix (p # ps) (c # cs) = (if p = c then strip_prefix ps cs else None)"

text \<open>
  A match of the pattern that starts at the first byte of \<open>s\<close>, giving the capture group.
  Each starred or plussed class is followed by a character outside it, so the match at a
  given start is unique and the greedy reading finds it.
\<close>

definition match_here :: "string \<Rightarrow> string \<Rightarrow> string option" where
  "match_here kw s =
     (case strip_prefix (kw @ ''('') s of
        None \<Rightarrow> None
      | Some r \<Rightarrow>
          (case dropWhile is_space r of
             [] \<Rightarrow> None
           | q # r1 \<Rightarrow>
               if q \<noteq> backtick then None
               else
                 (let v = takeWhile (\<lambda>c. c \<noteq> backtick) r1 in
                  if v = [] then None
                  else
                    (case dropWhile (\<lambda>c. c \<noteq> backtick) r1 of
                       [] \<Rightarrow> None
                     | _ # r2 \<Rightarrow>
                         (case dropWhile is_space r2 of
                            [] \<Rightarrow> None
                          | p # _ \<Rightarrow> if p = CHR '')'' then Some v else None)))))"

text \<open>\<^verbatim>\<open>FindStringSubmatch\<close>, read at index 1: the capture of the leftmost match.\<close>

fun FindStringSubmatch :: "string \<Rightarrow> string \<Rightarrow> string option" where
  "FindStringSubmatch kw [] = match_here kw []"
| "FindStringSubmatch kw (c # cs) =
     (case match_here kw (c # cs) of
        Some v \<Rightarrow> Some v
      | None \<Rightarrow> FindStringSubmatch kw cs)"

text \<open>
  Every \<^verbatim>\<open>fmt.Errorf\<close> of the packages \<^verbatim>\<open>labels\<close>, \<^verbatim>\<open>pfsense\<close> and \<^verbatim>\<open>haproxy\<close>
  is one constructor; a constructor that takes an \<open>error\<close> wraps it (\<^verbatim>\<open>%w\<close>), one
  that takes a string or a number prints it (\<^verbatim>\<open>%s\<close>, \<^verbatim>\<open>%d\<close>).
\<close>

datatype error =
    UnsupportedRule string
  | NoLabels
  | NoValidHAProxyLabels
  | NoValidPfSenseLabels
  | ControllerNotEnabled
  | TraefikNotEnabled
  | MissingRequiredLabels error
  | MissingTraefikRequiredLabels error
  | BackendPortLabelRequired
  | FrontendRuleLabelRequired
  | TraefikServicePortRequired
  | BackendConfigFailed error
  | TraefikBackendConfigFailed error
  | FrontendConfigFailed error
  | ValidationFailed error
  | BackendPortRequired
  | InvalidBackendPort string
  | InvalidTraefikPort string
  | NoContainerIP
  | NoServicePort
  | HealthCheckFailed error
  | HealthCheckPathRequired
  | InvalidCheckType string
  | FrontendRuleRequired
  | BackendNameEmpty
  | BackendPortEmpty
  | BackendAddressEmpty
  | FrontendRuleEmpty
  | HealthCheckPathMissing
  | FrontendRuleParseFailed error
  | RequestFailed string
  | ReadBodyFailed string
  | APIStatusError int string
  | UnmarshalBackendsFailed
  | UnmarshalFrontendsFailed
  | CreateBackendFailed string
  | UpdateBackendFailed string
  | CreateFrontendFailed string
  | ApplyChangesFailed string
  | AddACLToFrontendFailed string
  | AddActionToFrontendFailed string
  | AddACLFailed error
  | AddActionFailed error
  | EndpointNotFound string
  | SyncBackendFailed error
  | SyncFrontendFailed error
  | ApplyFailed error
  | CheckExistingBackendFailed error
  | CheckExistingFrontendFailed error
  | ConvertFrontendFailed error
  | MissingACLOrAction
  | OperationFailed int "error option"

definition parseRule :: "string \<Rightarrow> error + (string \<times> string)" where
  "parseRule rule =
     (case FindStringSubmatch ''Host'' rule of
        Some v \<Rightarrow> Inr (''host_matches'', v)
      | None \<Rightarrow>
          (case FindStringSubmatch ''PathPrefix'' rule of
             Some v \<Rightarrow> Inr (''path_beg'', v)
           | None \<Rightarrow>
               (case FindStringSubmatch ''Path'' rule of
                  Some v \<Rightarrow> Inr (''path'', v)
                | None \<Rightarrow> Inl (UnsupportedRule rule))))"

text \<open>The text of one grammar function: keyword, parenthesis, optional white space,
  the value between backticks, optional white space, parenthesis.\<close>

definition rule_atom :: "string \<Rightarrow> string \<Rightarrow> string \<Rightarrow> string \<Rightarrow> string" where
  "rule_atom kw ws1 v ws2 = kw @ ''('' @ ws1 @ [backtick] @ v @ [backtick] @ ws2 @ '')''"

definition is_value :: "string \<Rightarrow> bool" where
  "is_value v = (v \<noteq> [] \<and> backtick \<notin> set v)"

definition is_blank :: "string \<Rightarrow> bool" where
  "is_blank ws = list_all is_space ws"

text \<open>The rule string contains a match of the pattern for keyword \<open>kw\<close>.\<close>

definition matches :: "string \<Rightarrow> string \<Rightarrow> bool" where
  "matches kw r =
     (\<exists>pre ws1 v ws2 post.
        is_blank ws1 \<and> is_blank ws2 \<and> is_value v \<and> r = pre @ rule_atom kw ws1 v ws2 @ post)"

text \<open>The number of backticks of a string (used to locate matches in the proofs).\<close>

definition ticks :: "string \<Rightarrow> nat" where
  "ticks s = length (filter (\<lambda>c. c = backtick) s)"

section \<open>Container labels and the intermediate configuration\<close>

text \<open>
  A Go map is an association list here: \<open>map_of\<close> is the lookup, and a \<^verbatim>\<open>range\<close> loop
  visits the pairs in the order of the list. Go leaves that order open; a statement for
  every list covers every order. \<^verbatim>\<open>Labels\<close> may be the nil map.
\<close>

record NetworkInfo =
  net_IPAddress :: string
  net_Gateway :: string

record Info =
  info_Labels :: "(string \<times> string) list option"
  info_Networks :: "(string \<times> NetworkInfo) list"
  info_ID :: string
  info_Name :: string
  info_Image :: string
  info_State :: string
  info_Status :: string

record BackendConfig =
  bc_Name :: string
  bc_ServerName :: string
  bc_Port :: string
  bc_Address :: string
  bc_CheckType :: string
  bc_HealthCheckPath :: string
  bc_HealthCheckMethod :: string
  bc_HealthCheckVersion :: string
  bc_BackendPassThru :: string

record FrontendConfig =
  fc_Name :: string
  fc_Rule :: string
  fc_ACLName :: string

record ContainerConfig =
  cc_BackendConfig :: BackendConfig
  cc_FrontendConfig :: FrontendConfig
  cc_EndpointName :: string
  cc_ParseMode :: string
  cc_Enabled :: bool

definition ControllerEnableLabel :: string where
  "ControllerEnableLabel = ''pfsense-controller.enable''"
definition ControllerEndpointLabel :: string where
  "ControllerEndpointLabel = ''pfsense-controller.endpoint''"
definition ControllerBackendNameLabel :: string where
  "ControllerBackendNameLabel = ''pfsense-controller.backend.name''"
definition ControllerBackendPortLabel :: string where
  "ControllerBackendPortLabel = ''pfsense-controller.backend.port''"
definition ControllerBackendHealthCheckLabel :: string where
  "ControllerBackendHealthCheckLabel = ''pfsense-controller.backend.health_check_path''"
definition ControllerBackendHealthMethodLabel :: string where
  "ControllerBackendHealthMethodLabel = ''pfsense-controller.backend.health_check_method''"
definition ControllerBackendCheckTypeLabel :: string where
  "ControllerBackendCheckTypeLabel = ''pfsense-controller.backend.check_type''"
definition ControllerBackendServerNameLabel :: string where
  "ControllerBackendServerNameLabel = ''pfsense-controller.backend.server_name''"
definition ControllerFrontendNameLabel :: string where
  "ControllerFrontendNameLabel = ''pfsense-controller.frontend.name''"
definition ControllerFrontendRuleLabel :: string where
  "ControllerFrontendRuleLabel = ''pfsense-controller.frontend.rule''"
definition ControllerFrontendACLNameLabel :: string where
  "ControllerFrontendACLNameLabel = ''pfsense-controller.frontend.acl_name''"
definition TraefikEnableLabel :: string where
  "TraefikEnableLabel = ''traefik.enable''"
definition TrueValue :: string where
  "TrueValue = ''true''"
definition TraefikMode :: string where
  "TraefikMode = ''traefik''"
definition NoneValue :: string where
  "NoneValue = ''none''"
definition BasicValue :: string where
  "BasicValue = ''basic''"
definition HTTPValue :: string where
  "HTTPValue = ''http''"
definition HostMatches :: string where
  "HostMatches = ''host_matches''"
definition PathBeg :: string where
  "PathBeg = ''path_beg''"
definition PathValue :: string where
  "PathValue = ''path''"

definition getStringLabel :: "(string \<times> string) list \<Rightarrow> string \<Rightarrow> string \<Rightarrow> string" where
  "getStringLabel labels key defaultValue =
     (case map_of labels key of Some v \<Rightarrow> v | None \<Rightarrow> defaultValue)"

text \<open>\<^verbatim>\<open>container.GetContainerIP\<close>: the first non-empty address in the order of the loop.\<close>

fun firstIP :: "(string \<times> NetworkInfo) list \<Rightarrow> string" where
  "firstIP [] = []"
| "firstIP ((name, network) # rest) =
     (if net_IPAddress network \<noteq> [] then net_IPAddress network else firstIP rest)"

definition GetContainerIP :: "Info \<Rightarrow> string" where
  "GetContainerIP container = firstIP (info_Networks container)"

subsection \<open>Library functions of Go\<close>

text \<open>
  \<^verbatim>\<open>strconv.Atoi\<close> for a 64-bit \<^verbatim>\<open>int\<close>: an optional sign, then one or more decimal
  digits and nothing else; a value outside the 64-bit range is an error. \<open>None\<close> is the
  error.
\<close>

definition is_digit :: "char \<Rightarrow> bool" where
  "is_digit c = in_range 0x30 0x39 c"

definition digits_value :: "string \<Rightarrow> int" where
  "digits_value ds = foldl (\<lambda>n c. n * 10 + (int (byte c) - 48)) 0 ds"

definition Atoi :: "string \<Rightarrow> int option" where
  "Atoi s =
     (case s of
        [] \<Rightarrow> None
      | c # cs \<Rightarrow>
          (let ds = (if c = CHR ''-'' \<or> c = CHR ''+'' then cs else s) in
           if ds = [] \<or> \<not> list_all is_digit ds then None
           else
             (let n = (if c = CHR ''-'' then - digits_value ds else digits_value ds) in
              if n < - (2 ^ 63) \<or> 2 ^ 63 - 1 < n then None else Some n)))"

text \<open>
  \<^verbatim>\<open>strings.ToLower\<close>: a string of ASCII bytes has its letters A to Z lowered; for any
  other string Go returns \<^verbatim>\<open>strings.Map(unicode.ToLower, s)\<close>, which depends on the
  Unicode tables and is the parameter \<open>L\<close> of the model.
\<close>

definition lower_ascii :: "char \<Rightarrow> char" where
  "lower_ascii c = (if in_range 0x41 0x5A c then char_of (byte c + 32) else c)"

definition ToLower :: "(string \<Rightarrow> string) \<Rightarrow> string \<Rightarrow> string" where
  "ToLower L s = (if list_all (\<lambda>c. byte c < 0x80) s then map lower_ascii s else L s)"

definition ReplaceAll_slash :: "string \<Rightarrow> string" where
  "ReplaceAll_slash s = map (\<lambda>c. if c = CHR ''/'' then hyphen else c) s"

fun Contains :: "string \<Rightarrow> string \<Rightarrow> bool" where
  "Contains [] substr = (substr = [])"
| "Contains (c # cs) substr =
     (case strip_prefix substr (c # cs) of
        Some _ \<Rightarrow> True
      | None \<Rightarrow> Contains cs substr)"

definition HasSuffix :: "string \<Rightarrow> string \<Rightarrow> bool" where
  "HasSuffix s suffix = (strip_prefix (rev suffix) (rev s) \<noteq> None)"

text \<open>\<^verbatim>\<open>strings.Split(s, ".")\<close>.\<close>

fun Split_dot :: "string \<Rightarrow> string list" where
  "Split_dot [] = [[]]"
| "Split_dot (c # cs) =
     (if c = CHR ''.'' then [] # Split_dot cs
      else (case Split_dot cs of
              [] \<Rightarrow> [[c]]
            | p # ps \<Rightarrow> (c # p) # ps))"

text \<open>\<^verbatim>\<open>base64.StdEncoding.EncodeToString\<close>.\<close>

definition b64_alphabet :: string where
  "b64_alphabet = ''ABCDEFGHIJKLMNOPQRSTUVWXYZabcdefghijklmnopqrstuvwxyz0123456789+/''"

definition b64_char :: "nat \<Rightarrow> char" where
  "b64_char n = b64_alphabet ! (n mod 64)"

fun b64_encode :: "string \<Rightarrow> string" where
  "b64_encode [] = []"
| "b64_encode [a] =
     [b64_char (byte a div 4), b64_char ((byte a mod 4) * 16), CHR ''='', CHR ''='']"
| "b64_encode [a, b] =
     [b64_char (byte a div 4), b64_char ((byte a mod 4) * 16 + byte b div 16),
      b64_char ((byte b mod 16) * 4), CHR ''='']"
| "b64_encode (a # b # c # rest) =
     [b64_char (byte a div 4), b64_char ((byte a mod 4) * 16 + byte b div 16),
      b64_char ((byte b mod 16) * 4 + byte c div 64), b64_char (byte c mod 64)]
     @ b64_encode rest"

subsection \<open>The metadata translator\<close>

definition generateNameFromRule :: "string \<Rightarrow> string" where
  "generateNameFromRule rule =
     (case parseRule rule of
        Inr (expression, v) \<Rightarrow>
          if expression = HostMatches then sanitizeName v
          else if expression = PathBeg \<or> expression = PathValue
            then sanitizeName (ReplaceAll_slash v)
          else sanitizeName rule
      | Inl _ \<Rightarrow> sanitizeName rule)"

definition backslash :: char where
  "backslash = CHR 0x5C"

text \<open>The Go literal \<^verbatim>\<open>"HTTP/1.1\\r\\nHost:\\ %s"\<close>: the backslashes are characters of
  the string, not escapes of a carriage return or a newline.\<close>

definition health_check_version :: "string \<Rightarrow> string" where
  "health_check_version address =
     ''HTTP/1.1'' @ [backslash] @ ''r'' @ [backslash] @ ''nHost:'' @ [backslash] @ '' ''
     @ address"

definition configureHealthCheck ::
  "(string \<Rightarrow> string) \<Rightarrow> BackendConfig \<Rightarrow> (string \<times> string) list \<Rightarrow> error + BackendConfig" where
  "configureHealthCheck L config labels =
     (let t = ToLower L (bc_CheckType config) in
      if t = NoneValue then
        Inr (config\<lparr>bc_HealthCheckPath := [], bc_HealthCheckMethod := [],
                    bc_HealthCheckVersion := []\<rparr>)
      else if t = BasicValue then
        Inr (config\<lparr>bc_HealthCheckPath := [], bc_HealthCheckMethod := [],
                    bc_HealthCheckVersion := []\<rparr>)
      else if t = HTTPValue then
        (let path = getStringLabel labels ControllerBackendHealthCheckLabel [] in
         if path = [] then Inl HealthCheckPathRequired
         else
           Inr (config\<lparr>bc_HealthCheckPath := path,
                  bc_HealthCheckMethod :=
                    getStringLabel labels ControllerBackendHealthMethodLabel ''OPTIONS'',
                  bc_HealthCheckVersion := health_check_version (bc_Address config)\<rparr>))
      else Inl (InvalidCheckType (bc_CheckType config)))"

definition empty_BackendConfig :: BackendConfig where
  "empty_BackendConfig =
     \<lparr>bc_Name = [], bc_ServerName = [], bc_Port = [], bc_Address = [], bc_CheckType = [],
      bc_HealthCheckPath = [], bc_HealthCheckMethod = [], bc_HealthCheckVersion = [],
      bc_BackendPassThru = []\<rparr>"

definition set_host_header :: "string \<Rightarrow> string" where
  "set_host_header address = ''http-request set-header Host '' @ address"

definition parseControllerBackendConfig ::
  "(string \<Rightarrow> string) \<Rightarrow> Info \<Rightarrow> (string \<times> string) list \<Rightarrow> error + BackendConfig" where
  "parseControllerBackendConfig L containerInfo labels =
     (let name0 = getStringLabel labels ControllerBackendNameLabel [];
          name = (if name0 = [] then sanitizeName (info_Name containerInfo) @ ''-backend''
                  else name0);
          serverName = getStringLabel labels ControllerBackendServerNameLabel
                         (sanitizeName (info_Name containerInfo));
          port = getStringLabel labels ControllerBackendPortLabel []
      in
      if port = [] then Inl BackendPortRequired
      else if Atoi port = None then Inl (InvalidBackendPort port)
      else
        (let address = GetContainerIP containerInfo in
         if address = [] then Inl NoContainerIP
         else
           (let config = empty_BackendConfig\<lparr>bc_Name := name, bc_ServerName := serverName,
                            bc_Port := port, bc_Address := address,
                            bc_CheckType :=
                              getStringLabel labels ControllerBackendCheckTypeLabel ''basic''\<rparr>
            in
            case configureHealthCheck L config labels of
              Inl e \<Rightarrow> Inl (HealthCheckFailed e)
            | Inr config' \<Rightarrow>
                Inr (config'\<lparr>bc_BackendPassThru := set_host_header (bc_Address config')\<rparr>))))"

definition parseControllerFrontendConfig :: "(string \<times> string) list \<Rightarrow> error + FrontendConfig" where
  "parseControllerFrontendConfig labels =
     (let name = getStringLabel labels ControllerFrontendNameLabel [];
          rule = getStringLabel labels ControllerFrontendRuleLabel []
      in
      if rule = [] then Inl FrontendRuleRequired
      else
        (let aclName = getStringLabel labels ControllerFrontendACLNameLabel [] in
         Inr \<lparr>fc_Name = (if name = [] then ''auto-frontend-'' @ generateNameFromRule rule
                          else name),
              fc_Rule = rule,
              fc_ACLName = (if aclName = [] then ''auto-acl-'' @ generateNameFromRule rule
                            else aclName)\<rparr>))"

definition is_service_port_key :: "string \<Rightarrow> bool" where
  "is_service_port_key key =
     (Contains key ''.http.services.'' \<and> HasSuffix key ''.loadbalancer.server.port'')"

text \<open>The loop of \<^verbatim>\<open>parseTraefikBackendConfig\<close>: the first matching key in the order of the
  loop gives the port and, from the fourth dotted part of the key, the service name.\<close>

fun find_service_port :: "(string \<times> string) list \<Rightarrow> string \<times> string" where
  "find_service_port [] = ([], [])"
| "find_service_port ((key, v) # rest) =
     (if is_service_port_key key then
        (let parts = Split_dot key in
         (v, if 4 \<le> length parts then parts ! 3 else []))
      else find_service_port rest)"

definition parseTraefikBackendConfig ::
  "(string \<Rightarrow> string) \<Rightarrow> Info \<Rightarrow> (string \<times> string) list \<Rightarrow> error + BackendConfig" where
  "parseTraefikBackendConfig L containerInfo labels =
     (let name = sanitizeName (info_Name containerInfo) @ ''-backend'';
          serverName = sanitizeName (info_Name containerInfo);
          (servicePort, serviceName) = find_service_port labels
      in
      if servicePort = [] then Inl NoServicePort
      else if Atoi servicePort = None then Inl (InvalidTraefikPort servicePort)
      else
        (let address = GetContainerIP containerInfo in
         if address = [] then Inl NoContainerIP
         else
           (let config = empty_BackendConfig\<lparr>
                            bc_Name := (if serviceName \<noteq> []
                                        then sanitizeName serviceName @ ''-backend'' else name),
                            bc_ServerName := serverName,
                            bc_Port := servicePort, bc_Address := address,
                            bc_CheckType :=
                              getStringLabel labels ControllerBackendCheckTypeLabel ''basic''\<rparr>
            in
            case configureHealthCheck L config labels of
              Inl e \<Rightarrow> Inl (HealthCheckFailed e)
            | Inr config' \<Rightarrow>
                Inr (config'\<lparr>bc_BackendPassThru := set_host_header (bc_Address config')\<rparr>))))"

definition validateRequiredLabels :: "(string \<times> string) list \<Rightarrow> error option" where
  "validateRequiredLabels labels =
     (if getStringLabel labels ControllerBackendPortLabel [] = [] then
        Some BackendPortLabelRequired
      else if getStringLabel labels ControllerFrontendRuleLabel [] = [] then
        Some FrontendRuleLabelRequired
      else None)"

definition validateTraefikRequiredLabels :: "(string \<times> string) list \<Rightarrow> error option" where
  "validateTraefikRequiredLabels labels =
     (if \<not> list_ex (\<lambda>(key, v). is_service_port_key key) labels then
        Some TraefikServicePortRequired
      else if getStringLabel labels ControllerFrontendRuleLabel [] = [] then
        Some FrontendRuleLabelRequired
      else None)"

definition validateConfig :: "ContainerConfig \<Rightarrow> error option" where
  "validateConfig config =
     (if bc_Name (cc_BackendConfig config) = [] then Some BackendNameEmpty
      else if bc_Port (cc_BackendConfig config) = [] then Some BackendPortEmpty
      else if bc_Address (cc_BackendConfig config) = [] then Some BackendAddressEmpty
      else if fc_Rule (cc_FrontendConfig config) = [] then Some FrontendRuleEmpty
      else if bc_CheckType (cc_BackendConfig config) = HTTPValue
              \<and> bc_HealthCheckPath (cc_BackendConfig config) = []
        then Some HealthCheckPathMissing
      else None)"

definition parseControllerLabels ::
  "(string \<Rightarrow> string) \<Rightarrow> Info \<Rightarrow> (string \<times> string) list \<Rightarrow> error + ContainerConfig" where
  "parseControllerLabels L containerInfo labels =
     (if map_of labels ControllerEnableLabel \<noteq> Some TrueValue then Inl ControllerNotEnabled
      else
        (case validateRequiredLabels labels of
           Some e \<Rightarrow> Inl (MissingRequiredLabels e)
         | None \<Rightarrow>
             (let endpointName = getStringLabel labels ControllerEndpointLabel ''default'' in
              case parseControllerBackendConfig L containerInfo labels of
                Inl e \<Rightarrow> Inl (BackendConfigFailed e)
              | Inr backendConfig \<Rightarrow>
                  (case parseControllerFrontendConfig labels of
                     Inl e \<Rightarrow> Inl (FrontendConfigFailed e)
                   | Inr frontendConfig \<Rightarrow>
                       (let config = \<lparr>cc_BackendConfig = backendConfig,
                                       cc_FrontendConfig = frontendConfig,
                                       cc_EndpointName = endpointName,
                                       cc_ParseMode = [], cc_Enabled = True\<rparr>
                        in
                        case validateConfig config of
                          Some e \<Rightarrow> Inl (ValidationFailed e)
                        | None \<Rightarrow> Inr config)))))"

definition parseTraefikLabels ::
  "(string \<Rightarrow> string) \<Rightarrow> Info \<Rightarrow> (string \<times> string) list \<Rightarrow> error + ContainerConfig" where
  "parseTraefikLabels L containerInfo labels =
     (if map_of labels TraefikEnableLabel \<noteq> Some TrueValue then Inl TraefikNotEnabled
      else
        (case validateTraefikRequiredLabels labels of
           Some e \<Rightarrow> Inl (MissingTraefikRequiredLabels e)
         | None \<Rightarrow>
             (let endpointName = ''default'' in
              case parseTraefikBackendConfig L containerInfo labels of
                Inl e \<Rightarrow> Inl (TraefikBackendConfigFailed e)
              | Inr backendConfig \<Rightarrow>
                  (case parseControllerFrontendConfig labels of
                     Inl e \<Rightarrow> Inl (FrontendConfigFailed e)
                   | Inr frontendConfig \<Rightarrow>
                       (let config = \<lparr>cc_BackendConfig = backendConfig,
                                       cc_FrontendConfig = frontendConfig,
                                       cc_EndpointName = endpointName,
                                       cc_ParseMode = [], cc_Enabled = True\<rparr>
                        in
                        case validateConfig config of
                          Some e \<Rightarrow> Inl (ValidationFailed e)
                        | None \<Rightarrow> Inr config)))))"

text \<open>\<^verbatim>\<open>HAProxyParser.ParseContainer\<close>; \<open>traefikCompatMode\<close> is the field of the parser.\<close>

definition HAProxyParser_ParseContainer ::
  "bool \<Rightarrow> (string \<Rightarrow> string) \<Rightarrow> Info \<Rightarrow> error + ContainerConfig" where
  "HAProxyParser_ParseContainer traefikCompatMode L containerInfo =
     (case info_Labels containerInfo of
        None \<Rightarrow> Inl NoLabels
      | Some labels \<Rightarrow>
          (case parseControllerLabels L containerInfo labels of
             Inr config \<Rightarrow> Inr (config\<lparr>cc_ParseMode := ''controller''\<rparr>)
           | Inl _ \<Rightarrow>
               if traefikCompatMode then
                 (case parseTraefikLabels L containerInfo labels of
                    Inr config \<Rightarrow> Inr (config\<lparr>cc_ParseMode := TraefikMode\<rparr>)
                  | Inl _ \<Rightarrow> Inl NoValidHAProxyLabels)
               else Inl NoValidHAProxyLabels))"

text \<open>\<^verbatim>\<open>Parser.ParseContainer\<close>.\<close>

definition ParseContainer ::
  "bool \<Rightarrow> (string \<Rightarrow> string) \<Rightarrow> Info \<Rightarrow> error + ContainerConfig" where
  "ParseContainer traefikCompatMode L containerInfo =
     (case HAProxyParser_ParseContainer traefikCompatMode L containerInfo of
        Inr config \<Rightarrow> Inr config
      | Inl _ \<Rightarrow> Inl NoValidPfSenseLabels)"

text \<open>The conditions under which the native schema applies to a container: the enable
  flag, the two required labels, a port that \<^verbatim>\<open>Atoi\<close> accepts, an address, and a check
  type with its path.\<close>

definition native_applicable :: "(string \<Rightarrow> string) \<Rightarrow> Info \<Rightarrow> (string \<times> string) list \<Rightarrow> bool" where
  "native_applicable L containerInfo labels =
     (map_of labels ControllerEnableLabel = Some TrueValue
      \<and> getStringLabel labels ControllerBackendPortLabel [] \<noteq> []
      \<and> getStringLabel labels ControllerFrontendRuleLabel [] \<noteq> []
      \<and> Atoi (getStringLabel labels ControllerBackendPortLabel []) \<noteq> None
      \<and> GetContainerIP containerInfo \<noteq> []
      \<and> (let t = ToLower L (getStringLabel labels ControllerBackendCheckTypeLabel ''basic'') in
           t = NoneValue \<or> t = BasicValue
           \<or> (t = HTTPValue \<and> getStringLabel labels ControllerBackendHealthCheckLabel [] \<noteq> [])))"

subsection \<open>Example containers\<close>

definition example_network :: "(string \<times> NetworkInfo) list" where
  "example_network = [(''bridge'', \<lparr>net_IPAddress = ''172.17.0.2'', net_Gateway = []\<rparr>)]"

definition traefik_labels :: "(string \<times> string) list" where
  "traefik_labels =
     [(''traefik.enable'', ''true''),
      (''traefik.http.services.web.loadbalancer.server.port'', ''8080''),
      (''pfsense-controller.endpoint'', ''staging''),
      (''pfsense-controller.frontend.rule'', rule_atom ''Host'' [] ''a.example.com'' [])]"

definition traefik_container :: Info where
  "traefik_container =
     \<lparr>info_Labels = Some traefik_labels, info_Networks = example_network,
      info_ID = ''c1'', info_Name = ''web'', info_Image = [], info_State = ''running'',
      info_Status = []\<rparr>"

text \<open>A native container whose frontend rule is not in the grammar.\<close>

definition badrule_labels :: "(string \<times> string) list" where
  "badrule_labels =
     [(''pfsense-controller.enable'', ''true''),
      (''pfsense-controller.backend.port'', ''8080''),
      (''pfsense-controller.frontend.rule'', ''example.com'')]"

definition badrule_container :: Info where
  "badrule_container =
     \<lparr>info_Labels = Some badrule_labels, info_Networks = example_network,
      info_ID = ''c2'', info_Name = ''test-service'', info_Image = [], info_State = ''running'',
      info_Status = []\<rparr>"

section \<open>The remote API and its client\<close>

datatype json = JNum int | JStr string | JArr "json list" | JObj "(string \<times> json) list"

record HAProxyBackendServer =
  hs_Name :: string
  hs_Address :: string
  hs_Port :: string

record HAProxyBackend =
  hb_Name :: string
  hb_CheckType :: string
  hb_MonitorURI :: string
  hb_MonitorHTTPVersion :: string
  hb_AdvancedBackend :: string
  hb_Servers :: "HAProxyBackendServer list"
  hb_ID :: int

record HAProxyACL =
  acl_Name :: string
  acl_Expression :: string
  acl_Value :: string
  acl_ID :: int

record HAProxyAction =
  act_Action :: string
  act_ACL :: string
  act_Backend :: string
  act_ID :: int

record HAProxyFrontend =
  hf_Name :: string
  hf_HAACLs :: "HAProxyACL list"
  hf_ActionItems :: "HAProxyAction list"
  hf_ID :: int

text \<open>
  \<^verbatim>\<open>json.Marshal\<close> of the structs: the members in the order of the fields, under the
  names of the tags; a field tagged \<^verbatim>\<open>omitempty\<close> is left out when it is zero. The
  slices of every request the Manager builds have one element, so the \<^verbatim>\<open>null\<close> of a nil
  slice does not occur.
\<close>

definition omitempty :: "string \<Rightarrow> int \<Rightarrow> (string \<times> json) list" where
  "omitempty name n = (if n = 0 then [] else [(name, JNum n)])"

definition marshal_server :: "HAProxyBackendServer \<Rightarrow> json" where
  "marshal_server s =
     JObj [(''name'', JStr (hs_Name s)), (''address'', JStr (hs_Address s)),
           (''port'', JStr (hs_Port s))]"

definition marshal_backend :: "HAProxyBackend \<Rightarrow> json" where
  "marshal_backend b =
     JObj ([(''name'', JStr (hb_Name b)), (''check_type'', JStr (hb_CheckType b)),
            (''monitor_uri'', JStr (hb_MonitorURI b)),
            (''monitor_httpversion'', JStr (hb_MonitorHTTPVersion b)),
            (''advanced_backend'', JStr (hb_AdvancedBackend b)),
            (''servers'', JArr (map marshal_server (hb_Servers b)))]
           @ omitempty ''id'' (hb_ID b))"

definition marshal_acl :: "HAProxyACL \<Rightarrow> json" where
  "marshal_acl a =
     JObj ([(''name'', JStr (acl_Name a)), (''expression'', JStr (acl_Expression a)),
            (''value'', JStr (acl_Value a))]
           @ omitempty ''id'' (acl_ID a))"

definition marshal_action :: "HAProxyAction \<Rightarrow> json" where
  "marshal_action a =
     JObj ([(''action'', JStr (act_Action a)), (''acl'', JStr (act_ACL a)),
            (''backend'', JStr (act_Backend a))]
           @ omitempty ''id'' (act_ID a))"

definition marshal_frontend :: "HAProxyFrontend \<Rightarrow> json" where
  "marshal_frontend f =
     JObj ([(''name'', JStr (hf_Name f)), (''ha_acls'', JArr (map marshal_acl (hf_HAACLs f))),
            (''a_actionitems'', JArr (map marshal_action (hf_ActionItems f)))]
           @ omitempty ''id'' (hf_ID f))"

text \<open>The values that are passed as \<^verbatim>\<open>body interface{}\<close>. The members of a map are written
  in the order of their keys.\<close>

datatype body =
    BackendBody HAProxyBackend
  | FrontendBody HAProxyFrontend
  | MapBody "(string \<times> json) list"

fun marshal :: "body \<Rightarrow> json" where
  "marshal (BackendBody b) = marshal_backend b"
| "marshal (FrontendBody f) = marshal_frontend f"
| "marshal (MapBody members) = JObj members"

text \<open>
  \<^verbatim>\<open>json.RawMessage\<close>, by its length and by what \<^verbatim>\<open>json.Unmarshal\<close> makes of it for the
  two types it is decoded to (\<open>None\<close> when decoding fails).
\<close>

record RawMessage =
  raw_len :: nat
  as_backends :: "HAProxyBackend list option"
  as_frontends :: "HAProxyFrontend list option"

record APIResponse =
  resp_Status :: string
  resp_Message :: string
  resp_Data :: RawMessage
  resp_Code :: int

definition no_data :: RawMessage where
  "no_data = \<lparr>raw_len = 0, as_backends = None, as_frontends = None\<rparr>"

text \<open>
  A request as it leaves \<^verbatim>\<open>makeRequest\<close>, and what \<^verbatim>\<open>httpClient.Do\<close> and \<^verbatim>\<open>io.ReadAll\<close>
  give back: an error, or a status code, a status line, the bytes of the body and the
  envelope that the body decodes to, if it is JSON.
\<close>

record request =
  req_Method :: string
  req_URL :: string
  req_APIKey :: string
  req_Body :: "json option"

datatype http_result =
    TransportError string
  | ReadError string
  | HTTPResponse int string string "APIResponse option"

type_synonym 'w transport = "request \<Rightarrow> 'w \<Rightarrow> http_result \<times> 'w"

text \<open>
  The state outside the program: the network and the remote systems (\<open>world\<close>), the
  requests sent so far and the arguments of \<^verbatim>\<open>time.Sleep\<close> so far, oldest first.
  Log output is not modelled.
\<close>

type_synonym Duration = "64 word"

record 'w env =
  world :: 'w
  sent :: "request list"
  slept :: "Duration list"

record Client =
  baseURL :: string
  apiKey :: string

definition makeRequest ::
  "'w transport \<Rightarrow> Client \<Rightarrow> string \<Rightarrow> string \<Rightarrow> body option \<Rightarrow> 'w env
     \<Rightarrow> (error + APIResponse) \<times> 'w env" where
  "makeRequest tr c method endpoint body env =
     (let req = \<lparr>req_Method = method, req_URL = baseURL c @ endpoint, req_APIKey = apiKey c,
                  req_Body = map_option marshal body\<rparr>;
          (res, w) = tr req (world env);
          env' = env\<lparr>world := w, sent := sent env @ [req]\<rparr>
      in
      case res of
        TransportError msg \<Rightarrow> (Inl (RequestFailed msg), env')
      | ReadError msg \<Rightarrow> (Inl (ReadBodyFailed msg), env')
      | HTTPResponse code status respBody envelope \<Rightarrow>
          if 400 \<le> code then (Inl (APIStatusError code respBody), env')
          else
            (Inr (case envelope of
                    Some apiResp \<Rightarrow> apiResp
                  | None \<Rightarrow> \<lparr>resp_Status = status, resp_Message = respBody,
                              resp_Data = no_data, resp_Code = code\<rparr>),
             env'))"

definition GetHAProxyBackends ::
  "'w transport \<Rightarrow> Client \<Rightarrow> 'w env \<Rightarrow> (error + HAProxyBackend list) \<times> 'w env" where
  "GetHAProxyBackends tr c env =
     (case makeRequest tr c ''GET'' ''/services/haproxy/backends?limit=0&offset=0'' None env of
        (Inl e, env') \<Rightarrow> (Inl e, env')
      | (Inr resp, env') \<Rightarrow>
          if 0 < raw_len (resp_Data resp) then
            (case as_backends (resp_Data resp) of
               None \<Rightarrow> (Inl UnmarshalBackendsFailed, env')
             | Some backends \<Rightarrow> (Inr backends, env'))
          else (Inr [], env'))"

definition CreateHAProxyBackend ::
  "'w transport \<Rightarrow> Client \<Rightarrow> HAProxyBackend \<Rightarrow> 'w env \<Rightarrow> error option \<times> 'w env" where
  "CreateHAProxyBackend tr c backend env =
     (case makeRequest tr c ''POST'' ''/services/haproxy/backend'' (Some (BackendBody backend)) env of
        (Inl e, env') \<Rightarrow> (Some e, env')
      | (Inr resp, env') \<Rightarrow>
          if 400 \<le> resp_Code resp then (Some (CreateBackendFailed (resp_Message resp)), env')
          else (None, env'))"

definition UpdateHAProxyBackend ::
  "'w transport \<Rightarrow> Client \<Rightarrow> HAProxyBackend \<Rightarrow> 'w env \<Rightarrow> error option \<times> 'w env" where
  "UpdateHAProxyBackend tr c backend env =
     (case makeRequest tr c ''PATCH'' ''/services/haproxy/backend'' (Some (BackendBody backend)) env of
        (Inl e, env') \<Rightarrow> (Some e, env')
      | (Inr resp, env') \<Rightarrow>
          if 400 \<le> resp_Code resp then (Some (UpdateBackendFailed (resp_Message resp)), env')
          else (None, env'))"

definition GetHAProxyFrontends ::
  "'w transport \<Rightarrow> Client \<Rightarrow> 'w env \<Rightarrow> (error + HAProxyFrontend list) \<times> 'w env" where
  "GetHAProxyFrontends tr c env =
     (case makeRequest tr c ''GET'' ''/services/haproxy/frontends?limit=0&offset=0'' None env of
        (Inl e, env') \<Rightarrow> (Inl e, env')
      | (Inr resp, env') \<Rightarrow>
          if 0 < raw_len (resp_Data resp) then
            (case as_frontends (resp_Data resp) of
               None \<Rightarrow> (Inl UnmarshalFrontendsFailed, env')
             | Some frontends \<Rightarrow> (Inr frontends, env'))
          else (Inr [], env'))"

definition CreateHAProxyFrontend ::
  "'w transport \<Rightarrow> Client \<Rightarrow> HAProxyFrontend \<Rightarrow> 'w env \<Rightarrow> error option \<times> 'w env" where
  "CreateHAProxyFrontend tr c frontend env =
     (case makeRequest tr c ''POST'' ''/services/haproxy/frontend'' (Some (FrontendBody frontend)) env of
        (Inl e, env') \<Rightarrow> (Some e, env')
      | (Inr resp, env') \<Rightarrow>
          if 400 \<le> resp_Code resp then (Some (CreateFrontendFailed (resp_Message resp)), env')
          else (None, env'))"

definition ApplyHAProxyChanges :: "'w transport \<Rightarrow> Client \<Rightarrow> 'w env \<Rightarrow> error option \<times> 'w env" where
  "ApplyHAProxyChanges tr c env =
     (case makeRequest tr c ''POST'' ''/services/haproxy/apply'' (Some (MapBody [])) env of
        (Inl e, env') \<Rightarrow> (Some e, env')
      | (Inr resp, env') \<Rightarrow>
          if 400 \<le> resp_Code resp then (Some (ApplyChangesFailed (resp_Message resp)), env')
          else (None, env'))"

text \<open>The loops of the two finders return at the first element with the name.\<close>

definition FindBackendByName ::
  "'w transport \<Rightarrow> Client \<Rightarrow> string \<Rightarrow> 'w env \<Rightarrow> (error + HAProxyBackend option) \<times> 'w env" where
  "FindBackendByName tr c name env =
     (case GetHAProxyBackends tr c env of
        (Inl e, env') \<Rightarrow> (Inl e, env')
      | (Inr backends, env') \<Rightarrow> (Inr (find (\<lambda>backend. hb_Name backend = name) backends), env'))"

definition FindFrontendByName ::
  "'w transport \<Rightarrow> Client \<Rightarrow> string \<Rightarrow> 'w env \<Rightarrow> (error + HAProxyFrontend option) \<times> 'w env" where
  "FindFrontendByName tr c name env =
     (case GetHAProxyFrontends tr c env of
        (Inl e, env') \<Rightarrow> (Inl e, env')
      | (Inr frontends, env') \<Rightarrow>
          (Inr (find (\<lambda>frontend. hf_Name frontend = name) frontends), env'))"

definition acl_body :: "int \<Rightarrow> HAProxyACL \<Rightarrow> body" where
  "acl_body frontendID acl =
     MapBody [(''expression'', JStr (acl_Expression acl)), (''name'', JStr (acl_Name acl)),
              (''parent_id'', JNum frontendID), (''value'', JStr (acl_Value acl))]"

definition action_body :: "int \<Rightarrow> HAProxyAction \<Rightarrow> body" where
  "action_body frontendID action =
     MapBody [(''acl'', JStr (act_ACL action)), (''action'', JStr (act_Action action)),
              (''backend'', JStr (act_Backend action)), (''parent_id'', JNum frontendID)]"

definition AddACLToFrontend ::
  "'w transport \<Rightarrow> Client \<Rightarrow> int \<Rightarrow> HAProxyACL \<Rightarrow> 'w env \<Rightarrow> error option \<times> 'w env" where
  "AddACLToFrontend tr c frontendID acl env =
     (case makeRequest tr c ''POST'' ''/services/haproxy/frontend/acl''
             (Some (acl_body frontendID acl)) env of
        (Inl e, env') \<Rightarrow> (Some e, env')
      | (Inr resp, env') \<Rightarrow>
          if 400 \<le> resp_Code resp then (Some (AddACLToFrontendFailed (resp_Message resp)), env')
          else (None, env'))"

definition AddActionToFrontend ::
  "'w transport \<Rightarrow> Client \<Rightarrow> int \<Rightarrow> HAProxyAction \<Rightarrow> 'w env \<Rightarrow> error option \<times> 'w env" where
  "AddActionToFrontend tr c frontendID action env =
     (case makeRequest tr c ''POST'' ''/services/haproxy/frontend/action''
             (Some (action_body frontendID action)) env of
        (Inl e, env') \<Rightarrow> (Some e, env')
      | (Inr resp, env') \<Rightarrow>
          if 400 \<le> resp_Code resp then
            (Some (AddActionToFrontendFailed (resp_Message resp)), env')
          else (None, env'))"

definition UpdateFrontendWithACLAndAction ::
  "'w transport \<Rightarrow> Client \<Rightarrow> int \<Rightarrow> HAProxyACL \<Rightarrow> HAProxyAction \<Rightarrow> 'w env
     \<Rightarrow> error option \<times> 'w env" where
  "UpdateFrontendWithACLAndAction tr c frontendID acl action env =
     (case AddACLToFrontend tr c frontendID acl env of
        (Some e, env1) \<Rightarrow> (Some (AddACLFailed e), env1)
      | (None, env1) \<Rightarrow>
          (case AddActionToFrontend tr c frontendID action env1 of
             (Some e, env2) \<Rightarrow> (Some (AddActionFailed e), env2)
           | (None, env2) \<Rightarrow> (None, env2)))"

section \<open>The desired-state builder\<close>

definition ConvertToHAProxyBackend :: "(string \<Rightarrow> string) \<Rightarrow> ContainerConfig \<Rightarrow> HAProxyBackend" where
  "ConvertToHAProxyBackend L config =
     (let bc = cc_BackendConfig config;
          t = ToLower L (bc_CheckType bc);
          backend = \<lparr>hb_Name = bc_Name bc, hb_CheckType = [], hb_MonitorURI = [],
                      hb_MonitorHTTPVersion = [],
                      hb_AdvancedBackend = b64_encode (bc_BackendPassThru bc),
                      hb_Servers = [\<lparr>hs_Name = bc_ServerName bc, hs_Address = bc_Address bc,
                                      hs_Port = bc_Port bc\<rparr>],
                      hb_ID = 0\<rparr>
      in
      if t = ''none'' then backend\<lparr>hb_CheckType := []\<rparr>
      else if t = ''basic'' then backend\<lparr>hb_CheckType := ''Basic''\<rparr>
      else if t = ''http'' then
        backend\<lparr>hb_CheckType := ''HTTP'', hb_MonitorURI := bc_HealthCheckPath bc,
                 hb_MonitorHTTPVersion := bc_HealthCheckVersion bc\<rparr>
      else backend)"

definition ConvertToHAProxyFrontend :: "ContainerConfig \<Rightarrow> error + HAProxyFrontend" where
  "ConvertToHAProxyFrontend config =
     (case parseRule (fc_Rule (cc_FrontendConfig config)) of
        Inl e \<Rightarrow> Inl (FrontendRuleParseFailed e)
      | Inr (expression, v) \<Rightarrow>
          Inr \<lparr>hf_Name = fc_Name (cc_FrontendConfig config),
               hf_HAACLs = [\<lparr>acl_Name = fc_ACLName (cc_FrontendConfig config),
                              acl_Expression = expression, acl_Value = v, acl_ID = 0\<rparr>],
               hf_ActionItems = [\<lparr>act_Action = ''use_backend'',
                                   act_ACL = fc_ACLName (cc_FrontendConfig config),
                                   act_Backend = bc_Name (cc_BackendConfig config),
                                   act_ID = 0\<rparr>],
               hf_ID = 0\<rparr>)"

section \<open>The reconciler\<close>

record GlobalConfig =
  LogLevel :: string
  PollInterval :: Duration
  RetryDelay :: Duration
  RetryAttempts :: int
  HealthPort :: int
  TraefikCompatMode :: bool

record EndpointConfig =
  ep_Name :: string
  ep_URL :: string
  ep_APIKey :: string
  ep_RequestTimeout :: Duration
  ep_InsecureTLS :: bool

record Config =
  Endpoints :: "EndpointConfig list"
  Global :: GlobalConfig

record Manager =
  m_clients :: "string \<rightharpoonup> Client"
  m_traefikCompatMode :: bool
  m_config :: Config

definition NewClient :: "EndpointConfig \<Rightarrow> Client" where
  "NewClient endpoint = \<lparr>baseURL = ep_URL endpoint, apiKey = ep_APIKey endpoint\<rparr>"

definition NewManager :: "Config \<Rightarrow> Manager" where
  "NewManager cfg =
     \<lparr>m_clients = fold (\<lambda>endpoint m. m(ep_Name endpoint \<mapsto> NewClient endpoint))
                  (Endpoints cfg) Map.empty,
      m_traefikCompatMode = TraefikCompatMode (Global cfg),
      m_config = cfg\<rparr>"

definition GetDefaultEndpoint :: "Config \<Rightarrow> EndpointConfig option" where
  "GetDefaultEndpoint c = (case Endpoints c of [] \<Rightarrow> None | e # _ \<Rightarrow> Some e)"

definition getClient :: "Manager \<Rightarrow> string \<Rightarrow> Client option" where
  "getClient m endpointName =
     (case m_clients m endpointName of
        Some client \<Rightarrow> Some client
      | None \<Rightarrow>
          (case GetDefaultEndpoint (m_config m) of
             Some defaultEndpoint \<Rightarrow> m_clients m (ep_Name defaultEndpoint)
           | None \<Rightarrow> None))"

definition Sleep :: "Duration \<Rightarrow> 'w env \<Rightarrow> 'w env" where
  "Sleep d env = env\<lparr>slept := slept env @ [d]\<rparr>"

text \<open>
  The loop of \<^verbatim>\<open>retryOperation\<close>, from the state in which \<open>attempt\<close> attempts have
  failed. The counter stays below \<^verbatim>\<open>RetryAttempts\<close>, so it does not overflow; the delay is
  a product of 64-bit durations and wraps around.
\<close>

function retry_loop ::
  "Manager \<Rightarrow> ('w env \<Rightarrow> error option \<times> 'w env) \<Rightarrow> int \<Rightarrow> error option \<Rightarrow> 'w env
     \<Rightarrow> error option \<times> 'w env" where
  "retry_loop m operation attempt lastErr env =
     (if attempt < RetryAttempts (Global (m_config m)) then
        (let env1 = (if 0 < attempt
                     then Sleep (of_int attempt * RetryDelay (Global (m_config m))) env
                     else env)
         in
         case operation env1 of
           (Some err, env2) \<Rightarrow> retry_loop m operation (attempt + 1) (Some err) env2
         | (None, env2) \<Rightarrow> (None, env2))
      else (Some (OperationFailed (RetryAttempts (Global (m_config m))) lastErr), env))"
  by pat_completeness auto
termination
  by (relation "measure (\<lambda>(m, operation, attempt, lastErr, env).
                   nat (RetryAttempts (Global (m_config m)) - attempt))") auto

definition retryOperation ::
  "Manager \<Rightarrow> ('w env \<Rightarrow> error option \<times> 'w env) \<Rightarrow> 'w env \<Rightarrow> error option \<times> 'w env" where
  "retryOperation m operation env = retry_loop m operation 0 None env"

definition syncBackend ::
  "Manager \<Rightarrow> (string \<Rightarrow> string) \<Rightarrow> 'w transport \<Rightarrow> Client \<Rightarrow> ContainerConfig \<Rightarrow> 'w env
     \<Rightarrow> error option \<times> 'w env" where
  "syncBackend m L tr client containerConfig env =
     (let desiredBackend = ConvertToHAProxyBackend L containerConfig in
      case FindBackendByName tr client (hb_Name desiredBackend) env of
        (Inl e, env1) \<Rightarrow> (Some (CheckExistingBackendFailed e), env1)
      | (Inr None, env1) \<Rightarrow>
          retryOperation m (CreateHAProxyBackend tr client desiredBackend) env1
      | (Inr (Some existingBackend), env1) \<Rightarrow>
          retryOperation m
            (UpdateHAProxyBackend tr client (desiredBackend\<lparr>hb_ID := hb_ID existingBackend\<rparr>))
            env1)"

definition syncFrontend ::
  "Manager \<Rightarrow> 'w transport \<Rightarrow> Client \<Rightarrow> ContainerConfig \<Rightarrow> 'w env \<Rightarrow> error option \<times> 'w env" where
  "syncFrontend m tr client containerConfig env =
     (case ConvertToHAProxyFrontend containerConfig of
        Inl e \<Rightarrow> (Some (ConvertFrontendFailed e), env)
      | Inr desiredFrontend \<Rightarrow>
          (case FindFrontendByName tr client (hf_Name desiredFrontend) env of
             (Inl e, env1) \<Rightarrow> (Some (CheckExistingFrontendFailed e), env1)
           | (Inr None, env1) \<Rightarrow>
               retryOperation m (CreateHAProxyFrontend tr client desiredFrontend) env1
           | (Inr (Some existingFrontend), env1) \<Rightarrow>
               (case (hf_HAACLs desiredFrontend, hf_ActionItems desiredFrontend) of
                  (acl # _, action # _) \<Rightarrow>
                    retryOperation m
                      (UpdateFrontendWithACLAndAction tr client (hf_ID existingFrontend)
                         acl action)
                      env1
                | _ \<Rightarrow> (Some MissingACLOrAction, env1))))"

definition applyChangesWithRetry ::
  "Manager \<Rightarrow> 'w transport \<Rightarrow> Client \<Rightarrow> 'w env \<Rightarrow> error option \<times> 'w env" where
  "applyChangesWithRetry m tr client env = retryOperation m (ApplyHAProxyChanges tr client) env"

definition SyncContainer ::
  "Manager \<Rightarrow> (string \<Rightarrow> string) \<Rightarrow> 'w transport \<Rightarrow> Info \<Rightarrow> 'w env \<Rightarrow> error option \<times> 'w env" where
  "SyncContainer m L tr containerInfo env =
     (case ParseContainer (m_traefikCompatMode m) L containerInfo of
        Inl _ \<Rightarrow> (None, env)
      | Inr containerConfig \<Rightarrow>
          (case getClient m (cc_EndpointName containerConfig) of
             None \<Rightarrow> (Some (EndpointNotFound (cc_EndpointName containerConfig)), env)
           | Some client \<Rightarrow>
               (case syncBackend m L tr client containerConfig env of
                  (Some e, env1) \<Rightarrow> (Some (SyncBackendFailed e), env1)
                | (None, env1) \<Rightarrow>
                    (case syncFrontend m tr client containerConfig env1 of
                       (Some e, env2) \<Rightarrow> (Some (SyncFrontendFailed e), env2)
                     | (None, env2) \<Rightarrow>
                         (case applyChangesWithRetry m tr client env2 of
                            (Some e, env3) \<Rightarrow> (Some (ApplyFailed e), env3)
                          | (None, env3) \<Rightarrow> (None, env3))))))"

subsection \<open>The course of a retried operation\<close>

text \<open>
  \<open>before_attempt m operation env k\<close> is the state in which the operation runs for the
  \<open>k + 1\<close>-th time when the \<open>k\<close> runs before it have failed: the state the run before
  left, after a sleep of \<open>k\<close> times the base delay. \<open>outcome\<close> is what that run returns.
\<close>

fun before_attempt ::
  "Manager \<Rightarrow> ('w env \<Rightarrow> error option \<times> 'w env) \<Rightarrow> 'w env \<Rightarrow> nat \<Rightarrow> 'w env" where
  "before_attempt m operation env 0 = env"
| "before_attempt m operation env (Suc k) =
     Sleep (of_nat (Suc k) * RetryDelay (Global (m_config m)))
       (snd (operation (before_attempt m operation env k)))"

definition outcome ::
  "Manager \<Rightarrow> ('w env \<Rightarrow> error option \<times> 'w env) \<Rightarrow> 'w env \<Rightarrow> nat \<Rightarrow> error option \<times> 'w env" where
  "outcome m operation env k = operation (before_attempt m operation env k)"

text \<open>An operation with a counter of its runs beside the world it works on.\<close>

definition counting ::
  "('w env \<Rightarrow> error option \<times> 'w env) \<Rightarrow> (nat \<times> 'w) env \<Rightarrow> error option \<times> (nat \<times> 'w) env" where
  "counting operation env =
     (case operation \<lparr>world = snd (world env), sent = sent env, slept = slept env\<rparr> of
        (r, env') \<Rightarrow>
          (r, \<lparr>world = (Suc (fst (world env)), world env'), sent = sent env',
                slept = slept env'\<rparr>))"

text \<open>An operation that fails until it has run \<open>n\<close> times; the world is the number of
  runs so far.\<close>

definition flaky :: "nat \<Rightarrow> nat env \<Rightarrow> error option \<times> nat env" where
  "flaky n env =
     (if world env < n then Some (RequestFailed ''connection refused'') else None,
      env\<lparr>world := Suc (world env)\<rparr>)"

definition retry_config :: "int \<Rightarrow> Duration \<Rightarrow> Config" where
  "retry_config n d =
     \<lparr>Endpoints = [\<lparr>ep_Name = ''default'', ep_URL = ''https://pfsense/api/v2'',
                     ep_APIKey = ''key'', ep_RequestTimeout = 30000000000,
                     ep_InsecureTLS = False\<rparr>],
      Global = \<lparr>LogLevel = ''info'', PollInterval = 30000000000, RetryDelay = d,
                RetryAttempts = n, HealthPort = 8080, TraefikCompatMode = False\<rparr>\<rparr>"

definition start :: "'w \<Rightarrow> 'w env" where
  "start w = \<lparr>world = w, sent = [], slept = []\<rparr>"

section \<open>A model of the remote system\<close>

text \<open>
  The remote load balancer is not part of the program. This is the remote system as the
  interface table of the specification describes it and as the client expects it: list,
  create, update by identifier, add a rule or an action to the frontend with a given
  identifier, commit. It numbers its objects from 0 in the order of their creation, it
  answers every well-formed request with status 200, an update without an identifier
  with status 400 and an unknown identifier with status 404.
\<close>

record remote =
  r_backends :: "HAProxyBackend list"
  r_frontends :: "HAProxyFrontend list"
  r_applied :: nat

definition jstr :: "(string \<times> json) list \<Rightarrow> string \<Rightarrow> string" where
  "jstr members key = (case map_of members key of Some (JStr s) \<Rightarrow> s | _ \<Rightarrow> [])"

definition jnum :: "(string \<times> json) list \<Rightarrow> string \<Rightarrow> int option" where
  "jnum members key = (case map_of members key of Some (JNum n) \<Rightarrow> Some n | _ \<Rightarrow> None)"

definition jarr :: "(string \<times> json) list \<Rightarrow> string \<Rightarrow> json list" where
  "jarr members key = (case map_of members key of Some (JArr xs) \<Rightarrow> xs | _ \<Rightarrow> [])"

definition jid :: "(string \<times> json) list \<Rightarrow> int" where
  "jid members = (case jnum members ''id'' of Some n \<Rightarrow> n | None \<Rightarrow> 0)"

fun members_of :: "json \<Rightarrow> (string \<times> json) list" where
  "members_of (JObj members) = members"
| "members_of _ = []"

definition decode_server :: "json \<Rightarrow> HAProxyBackendServer" where
  "decode_server j =
     \<lparr>hs_Name = jstr (members_of j) ''name'', hs_Address = jstr (members_of j) ''address'',
      hs_Port = jstr (members_of j) ''port''\<rparr>"

definition decode_backend :: "(string \<times> json) list \<Rightarrow> HAProxyBackend" where
  "decode_backend ms =
     \<lparr>hb_Name = jstr ms ''name'', hb_CheckType = jstr ms ''check_type'',
      hb_MonitorURI = jstr ms ''monitor_uri'',
      hb_MonitorHTTPVersion = jstr ms ''monitor_httpversion'',
      hb_AdvancedBackend = jstr ms ''advanced_backend'',
      hb_Servers = map decode_server (jarr ms ''servers''), hb_ID = jid ms\<rparr>"

definition decode_acl :: "(string \<times> json) list \<Rightarrow> HAProxyACL" where
  "decode_acl ms =
     \<lparr>acl_Name = jstr ms ''name'', acl_Expression = jstr ms ''expression'',
      acl_Value = jstr ms ''value'', acl_ID = jid ms\<rparr>"

definition decode_action :: "(string \<times> json) list \<Rightarrow> HAProxyAction" where
  "decode_action ms =
     \<lparr>act_Action = jstr ms ''action'', act_ACL = jstr ms ''acl'',
      act_Backend = jstr ms ''backend'', act_ID = jid ms\<rparr>"

definition decode_frontend :: "(string \<times> json) list \<Rightarrow> HAProxyFrontend" where
  "decode_frontend ms =
     \<lparr>hf_Name = jstr ms ''name'',
      hf_HAACLs = map (\<lambda>j. decode_acl (members_of j)) (jarr ms ''ha_acls''),
      hf_ActionItems = map (\<lambda>j. decode_action (members_of j)) (jarr ms ''a_actionitems''),
      hf_ID = jid ms\<rparr>"

definition ok_response :: "RawMessage \<Rightarrow> http_result" where
  "ok_response d =
     HTTPResponse 200 ''200 OK'' []
       (Some \<lparr>resp_Status = ''ok'', resp_Message = [], resp_Data = d, resp_Code = 200\<rparr>)"

definition bad_request :: http_result where
  "bad_request = HTTPResponse 400 ''400 Bad Request'' ''field id is required'' None"

definition not_found :: http_result where
  "not_found = HTTPResponse 404 ''404 Not Found'' ''object not found'' None"

definition add_acl :: "int \<Rightarrow> HAProxyACL \<Rightarrow> HAProxyFrontend \<Rightarrow> HAProxyFrontend" where
  "add_acl n a f = (if hf_ID f = n then f\<lparr>hf_HAACLs := hf_HAACLs f @ [a]\<rparr> else f)"

definition add_action :: "int \<Rightarrow> HAProxyAction \<Rightarrow> HAProxyFrontend \<Rightarrow> HAProxyFrontend" where
  "add_action n a f = (if hf_ID f = n then f\<lparr>hf_ActionItems := hf_ActionItems f @ [a]\<rparr> else f)"

definition pfsense_route :: "string \<Rightarrow> string \<Rightarrow> (string \<times> json) list \<Rightarrow> remote \<Rightarrow> http_result \<times> remote" where
  "pfsense_route method path ms w =
     (if method = ''GET'' \<and> path = ''/services/haproxy/backends?limit=0&offset=0'' then
        (ok_response \<lparr>raw_len = 2, as_backends = Some (r_backends w), as_frontends = None\<rparr>, w)
      else if method = ''GET'' \<and> path = ''/services/haproxy/frontends?limit=0&offset=0'' then
        (ok_response \<lparr>raw_len = 2, as_backends = None, as_frontends = Some (r_frontends w)\<rparr>, w)
      else if method = ''POST'' \<and> path = ''/services/haproxy/backend'' then
        (ok_response no_data,
         w\<lparr>r_backends := r_backends w
                @ [(decode_backend ms)\<lparr>hb_ID := int (length (r_backends w))\<rparr>]\<rparr>)
      else if method = ''PATCH'' \<and> path = ''/services/haproxy/backend'' then
        (case jnum ms ''id'' of
           None \<Rightarrow> (bad_request, w)
         | Some n \<Rightarrow>
             if list_ex (\<lambda>b. hb_ID b = n) (r_backends w) then
               (ok_response no_data,
                w\<lparr>r_backends := map (\<lambda>b. if hb_ID b = n then decode_backend ms else b)
                                   (r_backends w)\<rparr>)
             else (not_found, w))
      else if method = ''POST'' \<and> path = ''/services/haproxy/frontend'' then
        (ok_response no_data,
         w\<lparr>r_frontends := r_frontends w
                @ [(decode_frontend ms)\<lparr>hf_ID := int (length (r_frontends w))\<rparr>]\<rparr>)
      else if method = ''POST'' \<and> path = ''/services/haproxy/frontend/acl'' then
        (case jnum ms ''parent_id'' of
           None \<Rightarrow> (bad_request, w)
         | Some n \<Rightarrow>
             if list_ex (\<lambda>f. hf_ID f = n) (r_frontends w) then
               (ok_response no_data,
                w\<lparr>r_frontends := map (add_acl n (decode_acl ms)) (r_frontends w)\<rparr>)
             else (not_found, w))
      else if method = ''POST'' \<and> path = ''/services/haproxy/frontend/action'' then
        (case jnum ms ''parent_id'' of
           None \<Rightarrow> (bad_request, w)
         | Some n \<Rightarrow>
             if list_ex (\<lambda>f. hf_ID f = n) (r_frontends w) then
               (ok_response no_data,
                w\<lparr>r_frontends := map (add_action n (decode_action ms)) (r_frontends w)\<rparr>)
             else (not_found, w))
      else if method = ''POST'' \<and> path = ''/services/haproxy/apply'' then
        (ok_response no_data, w\<lparr>r_applied := Suc (r_applied w)\<rparr>)
      else (not_found, w))"

definition pfsense :: "string \<Rightarrow> remote transport" where
  "pfsense base req w =
     (case strip_prefix base (req_URL req) of
        None \<Rightarrow> (TransportError ''no route to host'', w)
      | Some path \<Rightarrow>
          pfsense_route (req_Method req) path
            (case req_Body req of Some j \<Rightarrow> members_of j | None \<Rightarrow> []) w)"





definition update_backend_request :: "Client \<Rightarrow> HAProxyBackend \<Rightarrow> request" where
  "update_backend_request client backend =
     \<lparr>req_Method = ''PATCH'', req_URL = baseURL client @ ''/services/haproxy/backend'',
      req_APIKey = apiKey client, req_Body = Some (marshal_backend backend)\<rparr>"

definition create_backend_request :: "Client \<Rightarrow> HAProxyBackend \<Rightarrow> request" where
  "create_backend_request client backend =
     \<lparr>req_Method = ''POST'', req_URL = baseURL client @ ''/services/haproxy/backend'',
      req_APIKey = apiKey client, req_Body = Some (marshal_backend backend)\<rparr>"

text \<open>The identifier that a request body carries, if any.\<close>

definition payload_id :: "request \<Rightarrow> int option" where
  "payload_id req = (case req_Body req of Some j \<Rightarrow> jnum (members_of j) ''id'' | None \<Rightarrow> None)"

subsection \<open>Example reconciliations\<close>

definition web_labels :: "string \<Rightarrow> string \<Rightarrow> (string \<times> string) list" where
  "web_labels host backend =
     [(''pfsense-controller.enable'', ''true''),
      (''pfsense-controller.backend.name'', backend),
      (''pfsense-controller.backend.port'', ''8080''),
      (''pfsense-controller.frontend.name'', ''shared''),
      (''pfsense-controller.frontend.rule'', rule_atom ''Host'' [] host [])]"

definition web_container :: "string \<Rightarrow> string \<Rightarrow> string \<Rightarrow> Info" where
  "web_container name host backend =
     \<lparr>info_Labels = Some (web_labels host backend), info_Networks = example_network,
      info_ID = name, info_Name = name, info_Image = [], info_State = ''running'',
      info_Status = []\<rparr>"

definition example_manager :: Manager where
  "example_manager = NewManager (retry_config 3 5000000000)"

definition example_client :: Client where
  "example_client = \<lparr>baseURL = ''https://pfsense/api/v2'', apiKey = ''key''\<rparr>"

definition empty_remote :: remote where
  "empty_remote = \<lparr>r_backends = [], r_frontends = [], r_applied = 0\<rparr>"

definition web_config :: "string \<Rightarrow> string \<Rightarrow> string \<Rightarrow> ContainerConfig" where
  "web_config name host backend =
     projr (ParseContainer False (\<lambda>s. s) (web_container name host backend))"

text \<open>A remote system that holds one backend, named as the first example container
  names its backend, under the identifier \<open>n\<close>.\<close>

definition remote_with_backend :: "int \<Rightarrow> remote" where
  "remote_with_backend n =
     \<lparr>r_backends = [\<lparr>hb_Name = ''a-backend'', hb_CheckType = ''Basic'', hb_MonitorURI = [],
                      hb_MonitorHTTPVersion = [], hb_AdvancedBackend = [],
                      hb_Servers = [], hb_ID = n\<rparr>],
      r_frontends = [], r_applied = 0\<rparr>"

definition method_and_id :: "request \<Rightarrow> string \<times> int option" where
  "method_and_id req = (req_Method req, payload_id req)"




subsection \<open>Further notions for the statements\<close>

text \<open>The function \<open>kw\<close> with the value \<open>v\<close> occurs well-formed somewhere in \<open>r\<close>;
  and: a match of the pattern for \<open>kw\<close> starts at the first byte of \<open>s\<close>.\<close>

definition occurs :: "string \<Rightarrow> string \<Rightarrow> string \<Rightarrow> bool" where
  "occurs kw v r =
     (\<exists>pre ws1 ws2 post.
        is_blank ws1 \<and> is_blank ws2 \<and> is_value v \<and> r = pre @ rule_atom kw ws1 v ws2 @ post)"

definition matches_at :: "string \<Rightarrow> string \<Rightarrow> bool" where
  "matches_at kw s =
     (\<exists>ws1 v ws2 rest.
        is_blank ws1 \<and> is_blank ws2 \<and> is_value v \<and> s = rule_atom kw ws1 v ws2 @ rest)"

text \<open>The labels and the container meet every condition of the native schema but those
  on the check type.\<close>

definition native_ready :: "Info \<Rightarrow> (string \<times> string) list \<Rightarrow> bool" where
  "native_ready containerInfo labels =
     (map_of labels ControllerEnableLabel = Some TrueValue
      \<and> getStringLabel labels ControllerBackendPortLabel [] \<noteq> []
      \<and> getStringLabel labels ControllerFrontendRuleLabel [] \<noteq> []
      \<and> Atoi (getStringLabel labels ControllerBackendPortLabel []) \<noteq> None
      \<and> GetContainerIP containerInfo \<noteq> [])"

text \<open>A native container that names its endpoint and asks for an HTTP health check
  without a path, or with the path \<open>p\<close> when \<open>p\<close> is not empty.\<close>

definition native_labels :: "string \<Rightarrow> string \<Rightarrow> (string \<times> string) list" where
  "native_labels checkType p =
     [(''pfsense-controller.enable'', ''true''),
      (''pfsense-controller.endpoint'', ''staging''),
      (''pfsense-controller.backend.port'', ''8080''),
      (''pfsense-controller.backend.check_type'', checkType),
      (''pfsense-controller.frontend.rule'', rule_atom ''Host'' [] ''a.example.com'' [])]
     @ (if p = [] then [] else [(''pfsense-controller.backend.health_check_path'', p)])"

definition native_container :: "string \<Rightarrow> string \<Rightarrow> Info" where
  "native_container checkType p =
     \<lparr>info_Labels = Some (native_labels checkType p), info_Networks = example_network,
      info_ID = ''c3'', info_Name = ''api'', info_Image = [], info_State = ''running'',
      info_Status = []\<rparr>"




text \<open>The check type and the health-check path that the labels give.\<close>

definition check_type_of :: "(string \<times> string) list \<Rightarrow> string" where
  "check_type_of labels = getStringLabel labels ControllerBackendCheckTypeLabel ''basic''"

definition health_path_of :: "(string \<times> string) list \<Rightarrow> string" where
  "health_path_of labels = getStringLabel labels ControllerBackendHealthCheckLabel []"

section \<open>Facts for evaluation\<close>

lemmas label_defs =
  ControllerEnableLabel_def ControllerEndpointLabel_def ControllerBackendNameLabel_def
  ControllerBackendPortLabel_def ControllerBackendHealthCheckLabel_def
  ControllerBackendHealthMethodLabel_def ControllerBackendCheckTypeLabel_def
  ControllerBackendServerNameLabel_def ControllerFrontendNameLabel_def
  ControllerFrontendRuleLabel_def ControllerFrontendACLNameLabel_def TraefikEnableLabel_def
  TrueValue_def TraefikMode_def NoneValue_def BasicValue_def HTTPValue_def
  HostMatches_def PathBeg_def PathValue_def

section \<open>Name sanitization\<close>

lemma name_char_ascii: "is_name_char c \<Longrightarrow> byte c < 0x80"
  by (auto simp: is_name_char_def in_range_def byte_def)

lemma replaceInvalid_all: "list_all is_name_char (replaceInvalid s)"
  by (induction s rule: replaceInvalid.induct) (auto simp: is_name_char_def)

lemma replaceInvalid_id: "list_all is_name_char s \<Longrightarrow> replaceInvalid s = s"
  by (induction s) (auto simp: name_char_ascii)

lemma collapse_set: "set (collapseHyphens s) \<subseteq> set s"
  by (induction s rule: collapseHyphens.induct) (auto dest: set_dropWhileD)

lemma collapse_all: "list_all P s \<Longrightarrow> list_all P (collapseHyphens s)"
  using collapse_set[of s] by (auto simp: list_all_iff)

lemma collapse_no_run: "\<not> has_hyphen_run (collapseHyphens s)"
proof (induction s rule: collapseHyphens.induct)
  case 1 show ?case by simp
next
  case (2 c cs)
  show ?case
  proof (cases "c = hyphen")
    case True
    define r where "r = dropWhile (\<lambda>d. d = hyphen) cs"
    have ih: "\<not> has_hyphen_run (collapseHyphens r)" using 2(1) True r_def by simp
    have hd: "r = [] \<or> hd r \<noteq> hyphen"
      using hd_dropWhile[of "\<lambda>d. d = hyphen" cs] r_def by auto
    have eq: "collapseHyphens (c # cs) = hyphen # collapseHyphens r" using True r_def by simp
    show ?thesis
    proof (cases r)
      case Nil then show ?thesis unfolding eq by simp
    next
      case (Cons d ds)
      then have "d \<noteq> hyphen" using hd by auto
      then show ?thesis unfolding eq using Cons ih by simp
    qed
  next
    case False
    then have ih: "\<not> has_hyphen_run (collapseHyphens cs)" using 2(2) by simp
    show ?thesis using False ih by (cases "collapseHyphens cs") auto
  qed
qed

lemma collapse_id: "\<not> has_hyphen_run s \<Longrightarrow> collapseHyphens s = s"
proof (induction s rule: collapseHyphens.induct)
  case 1 show ?case by simp
next
  case (2 c cs)
  show ?case
  proof (cases "c = hyphen")
    case True
    then have "cs = [] \<or> hd cs \<noteq> hyphen" using 2(3) by (cases cs) auto
    then have d: "dropWhile (\<lambda>d. d = hyphen) cs = cs" by (cases cs) auto
    have "\<not> has_hyphen_run cs" using 2(3) by (cases cs) auto
    then show ?thesis using 2(1) True d by simp
  next
    case False
    have "\<not> has_hyphen_run cs" using 2(3) by (cases cs) auto
    then show ?thesis using 2(2) False by simp
  qed
qed

lemma dropWhile_Cons_not: "dropWhile P s = x # xs \<Longrightarrow> \<not> P x"
  using hd_dropWhile[of P s] by auto

lemma Trim_Cons: "Trim s c \<noteq> c # r"
proof
  assume a: "Trim s c = c # r"
  define t where "t = dropWhile (\<lambda>d. d = c) s"
  define u where "u = dropWhile (\<lambda>d. d = c) (rev t)"
  have tu: "Trim s c = rev u" by (simp add: Trim_def t_def u_def)
  have "rev t = takeWhile (\<lambda>d. d = c) (rev t) @ u" by (simp add: u_def)
  then have "t = rev u @ rev (takeWhile (\<lambda>d. d = c) (rev t))"
    by (metis rev_append rev_rev_ident)
  then have "t = c # (r @ rev (takeWhile (\<lambda>d. d = c) (rev t)))" using a tu by simp
  then show False using dropWhile_Cons_not[of "\<lambda>d. d = c" s c] t_def by metis
qed

lemma Trim_snoc: "Trim s c \<noteq> r @ [c]"
proof
  assume a: "Trim s c = r @ [c]"
  define t where "t = dropWhile (\<lambda>d. d = c) s"
  define u where "u = dropWhile (\<lambda>d. d = c) (rev t)"
  have tu: "Trim s c = rev u" by (simp add: Trim_def t_def u_def)
  then have "u = c # rev r" using a by (metis rev_rev_ident rev.simps(2) rev_append append_Nil rev_singleton_conv append_Cons rev_swap)
  then show False using dropWhile_Cons_not[of "\<lambda>d. d = c" "rev t" c] u_def by metis
qed

lemma Trim_id: "\<forall>r. s \<noteq> c # r \<Longrightarrow> \<forall>r. s \<noteq> r @ [c] \<Longrightarrow> Trim s c = s"
proof -
  assume h: "\<forall>r. s \<noteq> c # r" and l: "\<forall>r. s \<noteq> r @ [c]"
  have 1: "dropWhile (\<lambda>d. d = c) s = s" using h by (cases s) auto
  have "\<forall>r. rev s \<noteq> c # r" using l by (metis rev_rev_ident rev.simps(2))
  then have 2: "dropWhile (\<lambda>d. d = c) (rev s) = rev s" by (cases "rev s") auto
  show ?thesis by (simp add: Trim_def 1 2)
qed

lemma Trim_set: "set (Trim s c) \<subseteq> set s"
  unfolding Trim_def by (metis set_rev set_dropWhileD subsetI)

lemma run_iff: "has_hyphen_run s \<longleftrightarrow> (\<exists>a b. s = a @ hyphen # hyphen # b)"
proof (induction s rule: has_hyphen_run.induct)
  case (1 x y cs)
  show ?case
  proof
    assume "has_hyphen_run (x # y # cs)"
    then consider "x = hyphen \<and> y = hyphen" | "has_hyphen_run (y # cs)" by auto
    then show "\<exists>a b. x # y # cs = a @ hyphen # hyphen # b"
    proof cases
      case 1 then show ?thesis by (intro exI[of _ "[]"] exI[of _ cs]) simp
    next
      case 2
      then obtain a b where "y # cs = a @ hyphen # hyphen # b" using 1 by auto
      then have "x # y # cs = (x # a) @ hyphen # hyphen # b" by simp
      then show ?thesis by blast
    qed
  next
    assume "\<exists>a b. x # y # cs = a @ hyphen # hyphen # b"
    then obtain a b where ab: "x # y # cs = a @ hyphen # hyphen # b" by auto
    show "has_hyphen_run (x # y # cs)"
    proof (cases a)
      case Nil then show ?thesis using ab by simp
    next
      case (Cons z zs)
      then have "y # cs = zs @ hyphen # hyphen # b" using ab by simp
      then have "has_hyphen_run (y # cs)" using 1 by blast
      then show ?thesis by simp
    qed
  qed
qed (auto simp: Cons_eq_append_conv)

lemma Trim_infix: "\<exists>p q. s = p @ Trim s c @ q"
proof -
  define t where "t = dropWhile (\<lambda>d. d = c) s"
  define u where "u = dropWhile (\<lambda>d. d = c) (rev t)"
  have tu: "Trim s c = rev u" by (simp add: Trim_def t_def u_def)
  have "rev t = takeWhile (\<lambda>d. d = c) (rev t) @ u" by (simp add: u_def)
  then have 1: "t = rev u @ rev (takeWhile (\<lambda>d. d = c) (rev t))"
    by (metis rev_append rev_rev_ident)
  have 2: "s = takeWhile (\<lambda>d. d = c) s @ t" by (simp add: t_def)
  have "s = takeWhile (\<lambda>d. d = c) s @ Trim s c @ rev (takeWhile (\<lambda>d. d = c) (rev t))"
    using 1 2 tu by metis
  then show ?thesis by blast
qed

lemma Trim_no_run: "\<not> has_hyphen_run s \<Longrightarrow> \<not> has_hyphen_run (Trim s c)"
proof
  assume n: "\<not> has_hyphen_run s" and h: "has_hyphen_run (Trim s c)"
  obtain a b where ab: "Trim s c = a @ hyphen # hyphen # b" using h run_iff by blast
  obtain p q where "s = p @ Trim s c @ q" using Trim_infix by blast
  then have "s = (p @ a) @ hyphen # hyphen # (b @ q)" using ab by simp
  then show False using n run_iff by blast
qed

lemma sanitize_shape:
  "list_all is_name_char (sanitizeName x)"
  "\<not> has_hyphen_run (sanitizeName x)"
  "sanitizeName x \<noteq> hyphen # r"
  "sanitizeName x \<noteq> r @ [hyphen]"
proof -
  have "list_all is_name_char (collapseHyphens (replaceInvalid x))"
    by (rule collapse_all) (rule replaceInvalid_all)
  then show "list_all is_name_char (sanitizeName x)"
    using Trim_set[of "collapseHyphens (replaceInvalid x)" hyphen]
    by (auto simp: sanitizeName_def list_all_iff)
  show "\<not> has_hyphen_run (sanitizeName x)"
    unfolding sanitizeName_def by (rule Trim_no_run) (rule collapse_no_run)
  show "sanitizeName x \<noteq> hyphen # r" unfolding sanitizeName_def by (rule Trim_Cons)
  show "sanitizeName x \<noteq> r @ [hyphen]" unfolding sanitizeName_def by (rule Trim_snoc)
qed

lemma sanitize_fixed:
  assumes "list_all is_name_char s" "\<not> has_hyphen_run s"
    "\<forall>r. s \<noteq> hyphen # r" "\<forall>r. s \<noteq> r @ [hyphen]"
  shows "sanitizeName s = s"
  using assms by (simp add: sanitizeName_def replaceInvalid_id collapse_id Trim_id)

text \<open>
  C8. Sanitizing is idempotent; a sanitized name has no run of two or more hyphens and
  neither starts nor ends with a hyphen; \<^verbatim>\<open>"-test---service-"\<close> becomes
  \<^verbatim>\<open>"test-service"\<close>.
\<close>

theorem sanitizeName_idempotent:
  "sanitizeName (sanitizeName x) = sanitizeName x
   \<and> \<not> has_hyphen_run (sanitizeName x)
   \<and> (\<nexists>r. sanitizeName x = hyphen # r)
   \<and> (\<nexists>r. sanitizeName x = r @ [hyphen])
   \<and> sanitizeName ''-test---service-'' = ''test-service''"
proof -
  have "sanitizeName (sanitizeName x) = sanitizeName x"
    by (rule sanitize_fixed) (simp_all add: sanitize_shape)
  moreover have "sanitizeName ''-test---service-'' = ''test-service''"
    by (simp add: sanitizeName_def Trim_def is_name_char_def in_range_def byte_def)
  ultimately show ?thesis by (simp add: sanitize_shape)
qed

theorem sanitizeName_witness:
  "sanitizeName (sanitizeName ''web@app#1'') = ''web-app-1''"
  using sanitizeName_idempotent[of "''web@app#1''"]
  by (simp add: sanitizeName_def Trim_def is_name_char_def in_range_def byte_def)


section \<open>The rule parser\<close>

lemma strip_prefix_iff: "strip_prefix p s = Some r \<longleftrightarrow> s = p @ r"
  by (induction p s rule: strip_prefix.induct) auto

lemma space_not_backtick: "is_space c \<Longrightarrow> c \<noteq> backtick"
  by (auto simp: is_space_def)

lemma space_not_paren: "is_space c \<Longrightarrow> c \<noteq> CHR '')''"
  by (auto simp: is_space_def)

lemma dropWhile_blank: "is_blank ws \<Longrightarrow> \<not> is_space c \<Longrightarrow> dropWhile is_space (ws @ c # r) = c # r"
  by (induction ws) (auto simp: is_blank_def)

lemma takeWhile_value: "backtick \<notin> set v \<Longrightarrow> takeWhile (\<lambda>c. c \<noteq> backtick) (v @ backtick # r) = v"
  by (induction v) auto

lemma dropWhile_value: "backtick \<notin> set v \<Longrightarrow> dropWhile (\<lambda>c. c \<noteq> backtick) (v @ backtick # r) = backtick # r"
  by (induction v) auto

lemma match_here_atom:
  assumes "is_blank ws1" "is_blank ws2" "is_value v"
  shows "match_here kw (rule_atom kw ws1 v ws2 @ rest) = Some v"
proof -
  have s: "strip_prefix (kw @ ''('') (rule_atom kw ws1 v ws2 @ rest)
           = Some (ws1 @ backtick # (v @ backtick # (ws2 @ CHR '')'' # rest)))"
    by (simp add: strip_prefix_iff rule_atom_def)
  have nb: "\<not> is_space backtick" "\<not> is_space (CHR '')'')" by (simp_all add: is_space_def)
  have v: "v \<noteq> []" "backtick \<notin> set v" using assms(3) by (simp_all add: is_value_def)
  show ?thesis
    unfolding match_here_def s
    by (simp add: dropWhile_blank[OF assms(1) nb(1)] takeWhile_value[OF v(2)]
        dropWhile_value[OF v(2)] dropWhile_blank[OF assms(2) nb(2)] v(1))
qed

lemma match_here_shape:
  assumes "match_here kw s = Some v"
  shows "\<exists>ws1 ws2 rest. is_blank ws1 \<and> is_blank ws2 \<and> is_value v
           \<and> s = rule_atom kw ws1 v ws2 @ rest"
proof -
  from assms obtain r where r: "strip_prefix (kw @ ''('') s = Some r"
    by (auto simp: match_here_def split: option.splits)
  then have s: "s = kw @ ''('' @ r" by (simp add: strip_prefix_iff)
  define ws1 where "ws1 = takeWhile is_space r"
  from assms r obtain r1 where r1: "dropWhile is_space r = backtick # r1"
    by (auto simp: match_here_def split: list.splits if_splits)
  define r2' where "r2' = dropWhile (\<lambda>c. c \<noteq> backtick) r1"
  from assms r r1 have vdef: "v = takeWhile (\<lambda>c. c \<noteq> backtick) r1" and vne: "v \<noteq> []"
    by (auto simp: match_here_def Let_def split: list.splits if_splits)
  from assms r r1 obtain r2 where r2: "dropWhile (\<lambda>c. c \<noteq> backtick) r1 = backtick # r2"
    by (auto simp: match_here_def Let_def split: list.splits if_splits
        dest: dropWhile_Cons_not)
  define ws2 where "ws2 = takeWhile is_space r2"
  from assms r r1 r2 obtain rest where r3: "dropWhile is_space r2 = CHR '')'' # rest"
    by (auto simp: match_here_def Let_def split: list.splits if_splits)
  have a: "r = ws1 @ backtick # r1" using r1 ws1_def by (metis takeWhile_dropWhile_id)
  have b: "r1 = v @ backtick # r2" using r2 vdef by (metis takeWhile_dropWhile_id)
  have c: "r2 = ws2 @ CHR '')'' # rest" using r3 ws2_def by (metis takeWhile_dropWhile_id)
  have w1: "is_blank ws1" unfolding ws1_def is_blank_def list_all_iff
    by (auto dest: set_takeWhileD)
  have w2: "is_blank ws2" unfolding ws2_def is_blank_def list_all_iff
    by (auto dest: set_takeWhileD)
  have vv: "is_value v" unfolding is_value_def using vne vdef by (auto dest: set_takeWhileD)
  have "s = rule_atom kw ws1 v ws2 @ rest" using s a b c by (simp add: rule_atom_def)
  then show ?thesis using w1 w2 vv by blast
qed

lemma find_Some_split:
  "FindStringSubmatch kw s = Some v \<Longrightarrow> \<exists>pre t. s = pre @ t \<and> match_here kw t = Some v"
proof (induction s)
  case Nil
  then show ?case by simp
next
  case (Cons c cs)
  show ?case
  proof (cases "match_here kw (c # cs)")
    case (Some w)
    then have "w = v" using Cons.prems by simp
    then show ?thesis using Some by (intro exI[of _ "[]"] exI[of _ "c # cs"]) simp
  next
    case None
    then have "FindStringSubmatch kw cs = Some v" using Cons.prems by simp
    then obtain pre t where "cs = pre @ t" "match_here kw t = Some v" using Cons.IH by blast
    then have "c # cs = (c # pre) @ t \<and> match_here kw t = Some v" by simp
    then show ?thesis by blast
  qed
qed

lemma find_match: "match_here kw s = Some v \<Longrightarrow> FindStringSubmatch kw s = Some v"
  by (cases s) auto

lemma find_append: "match_here kw t = Some v \<Longrightarrow> \<exists>w. FindStringSubmatch kw (pre @ t) = Some w"
proof (induction pre)
  case Nil
  then show ?case by (simp add: find_match)
next
  case (Cons c pre)
  then show ?case by (cases "match_here kw (c # pre @ t)") auto
qed

lemma find_iff_matches: "(\<exists>v. FindStringSubmatch kw r = Some v) \<longleftrightarrow> matches kw r"
proof
  assume "\<exists>v. FindStringSubmatch kw r = Some v"
  then obtain v pre t where "r = pre @ t" "match_here kw t = Some v"
    using find_Some_split by blast
  then show "matches kw r" using match_here_shape[of kw t v] unfolding matches_def by blast
next
  assume "matches kw r"
  then obtain pre ws1 v ws2 post where
    h: "is_blank ws1" "is_blank ws2" "is_value v" "r = pre @ rule_atom kw ws1 v ws2 @ post"
    unfolding matches_def by blast
  have "match_here kw (rule_atom kw ws1 v ws2 @ post) = Some v" using h by (simp add: match_here_atom)
  then show "\<exists>v. FindStringSubmatch kw r = Some v" using find_append h(4) by blast
qed

lemma find_None_iff: "FindStringSubmatch kw r = None \<longleftrightarrow> \<not> matches kw r"
  using find_iff_matches[of kw r] by auto

lemma ticks_append: "ticks (a @ b) = ticks a + ticks b"
  by (simp add: ticks_def)

lemma ticks_Cons: "ticks (c # s) = (if c = backtick then 1 else 0) + ticks s"
  by (simp add: ticks_def)

lemma ticks_Nil: "ticks [] = 0"
  by (simp add: ticks_def)

lemma ticks_zero: "ticks s = 0 \<longleftrightarrow> backtick \<notin> set s"
  by (auto simp: ticks_def filter_empty_conv)

lemma ticks_blank: "is_blank ws \<Longrightarrow> ticks ws = 0"
  by (auto simp: ticks_zero is_blank_def list_all_iff dest: space_not_backtick)

lemma ticks_value: "is_value v \<Longrightarrow> ticks v = 0"
  by (simp add: ticks_zero is_value_def)

lemma first_tick_split:
  assumes "a @ backtick # x = b @ backtick # y" "backtick \<notin> set a" "backtick \<notin> set b"
  shows "a = b"
proof -
  have "takeWhile (\<lambda>c. c \<noteq> backtick) (a @ backtick # x) = a" using assms(2) by (rule takeWhile_value)
  moreover have "takeWhile (\<lambda>c. c \<noteq> backtick) (b @ backtick # y) = b" using assms(3) by (rule takeWhile_value)
  ultimately show ?thesis using assms(1) by simp
qed

lemma strip_blank_tail:
  assumes "x @ c # w1 = y @ c # w2" "is_blank w1" "is_blank w2" "\<not> is_space c"
  shows "x = y"
proof -
  have b1: "is_blank (rev w1)" and b2: "is_blank (rev w2)"
    using assms(2,3) by (simp_all add: is_blank_def)
  have "rev (x @ c # w1) = rev (y @ c # w2)" using assms(1) by simp
  then have "rev w1 @ c # rev x = rev w2 @ c # rev y" by simp
  then have "dropWhile is_space (rev w1 @ c # rev x) = dropWhile is_space (rev w2 @ c # rev y)"
    by simp
  then have "c # rev x = c # rev y"
    by (simp add: dropWhile_blank[OF b1 assms(4)] dropWhile_blank[OF b2 assms(4)])
  then show ?thesis by simp
qed

lemma no_cross_match:
  assumes wf: "is_blank ws1" "is_blank ws2" "is_value v"
    and kw': "backtick \<notin> set kw'"
    and eq: "rule_atom kw' ws1 v ws2 = pre @ t"
    and m: "match_here kw t = Some v'"
  shows "\<exists>p. kw' = p @ kw"
proof -
  obtain a b rest where ab: "is_blank a" "is_blank b" "is_value v'"
    and t: "t = rule_atom kw a v' b @ rest"
    using match_here_shape[OF m] by blast
  have e: "(kw' @ ''('' @ ws1) @ backtick # (v @ backtick # ws2 @ '')'')
         = (pre @ kw @ ''('' @ a) @ backtick # (v' @ backtick # b @ '')'' @ rest)"
    using eq t by (simp add: rule_atom_def)
  have "ticks ((kw' @ ''('' @ ws1) @ backtick # (v @ backtick # ws2 @ '')'')) = 2"
    using wf kw' by (simp add: ticks_append ticks_Cons ticks_Nil ticks_blank ticks_value ticks_zero[symmetric])
  then have "ticks ((pre @ kw @ ''('' @ a) @ backtick # (v' @ backtick # b @ '')'' @ rest)) = 2"
    using e by simp
  then have "ticks pre = 0" "ticks kw = 0"
    by (simp_all add: ticks_append ticks_Cons ticks_Nil)
  then have r: "backtick \<notin> set (pre @ kw @ ''('' @ a)"
    using ab(1) by (simp add: ticks_zero[symmetric] ticks_append ticks_Cons ticks_Nil ticks_blank)
  have l: "backtick \<notin> set (kw' @ ''('' @ ws1)"
    using wf(1) kw' by (simp add: ticks_zero[symmetric] ticks_append ticks_Cons ticks_Nil ticks_blank)
  have "kw' @ ''('' @ ws1 = pre @ kw @ ''('' @ a" using first_tick_split[OF e l r] .
  then have "kw' @ CHR ''('' # ws1 = (pre @ kw) @ CHR ''('' # a" by simp
  then have "kw' = pre @ kw"
    by (rule strip_blank_tail) (simp_all add: wf ab is_space_def)
  then show ?thesis by blast
qed

lemma Host_not_suffix: "''PathPrefix'' \<noteq> p @ ''Host''" "''Path'' \<noteq> p @ ''Host''"
  "''Path'' \<noteq> p @ ''PathPrefix''"
proof -
  show "''PathPrefix'' \<noteq> p @ ''Host''"
  proof
    assume "''PathPrefix'' = p @ ''Host''"
    then have "rev ''PathPrefix'' = rev (p @ ''Host'')" by simp
    then show False by simp
  qed
  show "''Path'' \<noteq> p @ ''Host''"
  proof
    assume "''Path'' = p @ ''Host''"
    then have "rev ''Path'' = rev (p @ ''Host'')" by simp
    then show False by simp
  qed
  show "''Path'' \<noteq> p @ ''PathPrefix''"
  proof
    assume "''Path'' = p @ ''PathPrefix''"
    then have "rev ''Path'' = rev (p @ ''PathPrefix'')" by simp
    then show False by simp
  qed
qed

lemma find_atom_self:
  assumes "is_blank ws1" "is_blank ws2" "is_value v"
  shows "FindStringSubmatch kw (rule_atom kw ws1 v ws2) = Some v"
  using match_here_atom[OF assms, of kw "[]"] by (simp add: find_match)

lemma find_atom_other:
  assumes wf: "is_blank ws1" "is_blank ws2" "is_value v"
    and kw': "backtick \<notin> set kw'" and ns: "\<forall>p. kw' \<noteq> p @ kw"
  shows "FindStringSubmatch kw (rule_atom kw' ws1 v ws2) = None"
proof (cases "FindStringSubmatch kw (rule_atom kw' ws1 v ws2)")
  case None then show ?thesis .
next
  case (Some w)
  then obtain pre t where "rule_atom kw' ws1 v ws2 = pre @ t" "match_here kw t = Some w"
    using find_Some_split by blast
  then have "\<exists>p. kw' = p @ kw" using no_cross_match[OF wf kw'] by blast
  then show ?thesis using ns by blast
qed

text \<open>
  C3. The parser tries Host, then PathPrefix, then Path and returns on the first pattern
  that matches somewhere in the string. A Host function with a non-empty value free of
  backticks, with optional white space inside the parentheses, gives
  \<open>(host_matches, v)\<close>, PathPrefix gives \<open>(path_beg, v)\<close> and Path gives
  \<open>(path, v)\<close>; a string that matches none of the patterns gives the error
  "unsupported rule format".
\<close>

theorem parseRule_grammar:
  assumes "is_blank ws1" "is_blank ws2" "is_value v"
  shows "parseRule (rule_atom ''Host'' ws1 v ws2) = Inr (''host_matches'', v)
       \<and> parseRule (rule_atom ''PathPrefix'' ws1 v ws2) = Inr (''path_beg'', v)
       \<and> parseRule (rule_atom ''Path'' ws1 v ws2) = Inr (''path'', v)
       \<and> (matches ''Host'' r \<longrightarrow> (\<exists>w. parseRule r = Inr (''host_matches'', w)))
       \<and> (\<not> matches ''Host'' r \<and> matches ''PathPrefix'' r
            \<longrightarrow> (\<exists>w. parseRule r = Inr (''path_beg'', w)))
       \<and> (\<not> matches ''Host'' r \<and> \<not> matches ''PathPrefix'' r \<and> matches ''Path'' r
            \<longrightarrow> (\<exists>w. parseRule r = Inr (''path'', w)))
       \<and> (\<not> matches ''Host'' r \<and> \<not> matches ''PathPrefix'' r \<and> \<not> matches ''Path'' r
            \<longrightarrow> parseRule r = Inl (UnsupportedRule r))"
proof -
  have h: "FindStringSubmatch ''Host'' (rule_atom ''Host'' ws1 v ws2) = Some v"
    using assms by (rule find_atom_self)
  have pp0: "FindStringSubmatch ''Host'' (rule_atom ''PathPrefix'' ws1 v ws2) = None"
    using assms by (rule find_atom_other) (simp_all add: Host_not_suffix)
  have pp1: "FindStringSubmatch ''PathPrefix'' (rule_atom ''PathPrefix'' ws1 v ws2) = Some v"
    using assms by (rule find_atom_self)
  have p0: "FindStringSubmatch ''Host'' (rule_atom ''Path'' ws1 v ws2) = None"
    using assms by (rule find_atom_other) (simp_all add: Host_not_suffix)
  have p1: "FindStringSubmatch ''PathPrefix'' (rule_atom ''Path'' ws1 v ws2) = None"
    using assms by (rule find_atom_other) (simp_all add: Host_not_suffix)
  have p2: "FindStringSubmatch ''Path'' (rule_atom ''Path'' ws1 v ws2) = Some v"
    using assms by (rule find_atom_self)
  have a: "parseRule (rule_atom ''Host'' ws1 v ws2) = Inr (''host_matches'', v)"
    unfolding parseRule_def h by simp
  have b: "parseRule (rule_atom ''PathPrefix'' ws1 v ws2) = Inr (''path_beg'', v)"
    unfolding parseRule_def pp0 pp1 by simp
  have c: "parseRule (rule_atom ''Path'' ws1 v ws2) = Inr (''path'', v)"
    unfolding parseRule_def p0 p1 p2 by simp
  have d: "matches ''Host'' r \<longrightarrow> (\<exists>w. parseRule r = Inr (''host_matches'', w))"
    using find_iff_matches[of "''Host''" r] by (auto simp: parseRule_def)
  have e: "\<not> matches ''Host'' r \<and> matches ''PathPrefix'' r
            \<longrightarrow> (\<exists>w. parseRule r = Inr (''path_beg'', w))"
    using find_None_iff[of "''Host''" r] find_iff_matches[of "''PathPrefix''" r]
    by (auto simp: parseRule_def)
  have f: "\<not> matches ''Host'' r \<and> \<not> matches ''PathPrefix'' r \<and> matches ''Path'' r
            \<longrightarrow> (\<exists>w. parseRule r = Inr (''path'', w))"
    using find_None_iff[of "''Host''" r] find_None_iff[of "''PathPrefix''" r]
      find_iff_matches[of "''Path''" r]
    by (auto simp: parseRule_def)
  have g: "\<not> matches ''Host'' r \<and> \<not> matches ''PathPrefix'' r \<and> \<not> matches ''Path'' r
            \<longrightarrow> parseRule r = Inl (UnsupportedRule r)"
    using find_None_iff[of "''Host''" r] find_None_iff[of "''PathPrefix''" r]
      find_None_iff[of "''Path''" r]
    by (auto simp: parseRule_def)
  show ?thesis using a b c d e f g by blast
qed

lemmas eval_rule = rule_atom_def match_here_def is_space_def is_blank_def is_value_def

theorem parseRule_grammar_witness:
  "parseRule (rule_atom ''Host'' [] ''a.example.com'' []) = Inr (''host_matches'', ''a.example.com'')
   \<and> parseRule (rule_atom ''PathPrefix'' '' '' ''/api'' '' '') = Inr (''path_beg'', ''/api'')
   \<and> parseRule (rule_atom ''Path'' [] ''/x'' []) = Inr (''path'', ''/x'')
   \<and> parseRule ''Host(a)'' = Inl (UnsupportedRule ''Host(a)'')"
proof -
  have n: "\<not> matches ''Host'' ''Host(a)''" "\<not> matches ''PathPrefix'' ''Host(a)''"
    "\<not> matches ''Path'' ''Host(a)''"
    unfolding find_None_iff[symmetric] by (simp_all add: eval_rule)
  have w: "is_blank []" "is_blank '' ''" "is_value ''a.example.com''" "is_value ''/api''"
    "is_value ''/x''"
    by (simp_all add: is_blank_def is_value_def is_space_def)
  show ?thesis
    using parseRule_grammar[OF w(1) w(1) w(3), of "''Host(a)''"]
      parseRule_grammar[OF w(2) w(2) w(4), of "''Host(a)''"]
      parseRule_grammar[OF w(1) w(1) w(5), of "''Host(a)''"] n
    by blast
qed

section \<open>The metadata translator\<close>

lemma ToLower_words:
  "ToLower L ''none'' = ''none''" "ToLower L ''basic'' = ''basic''" "ToLower L ''http'' = ''http''"
  by (simp_all add: ToLower_def lower_ascii_def in_range_def byte_def)

lemma configureHealthCheck_cases:
  "configureHealthCheck L config labels =
     (if ToLower L (bc_CheckType config) = ''none'' \<or> ToLower L (bc_CheckType config) = ''basic''
      then Inr (config\<lparr>bc_HealthCheckPath := [], bc_HealthCheckMethod := [],
                       bc_HealthCheckVersion := []\<rparr>)
      else if ToLower L (bc_CheckType config) = ''http'' then
        (if getStringLabel labels ControllerBackendHealthCheckLabel [] = []
         then Inl HealthCheckPathRequired
         else Inr (config\<lparr>bc_HealthCheckPath :=
                            getStringLabel labels ControllerBackendHealthCheckLabel [],
                          bc_HealthCheckMethod :=
                            getStringLabel labels ControllerBackendHealthMethodLabel ''OPTIONS'',
                          bc_HealthCheckVersion := health_check_version (bc_Address config)\<rparr>))
      else Inl (InvalidCheckType (bc_CheckType config)))"
  by (simp add: configureHealthCheck_def Let_def NoneValue_def BasicValue_def HTTPValue_def)

lemma configureHealthCheck_branches:
  "(ToLower L (bc_CheckType config) = ''none'' \<or> ToLower L (bc_CheckType config) = ''basic''
      \<longrightarrow> (\<exists>c. configureHealthCheck L config labels = Inr c
               \<and> bc_HealthCheckPath c = [] \<and> bc_HealthCheckMethod c = []
               \<and> bc_HealthCheckVersion c = []))
   \<and> (ToLower L (bc_CheckType config) = ''http''
        \<and> getStringLabel labels ControllerBackendHealthCheckLabel [] = []
      \<longrightarrow> configureHealthCheck L config labels = Inl HealthCheckPathRequired)
   \<and> (ToLower L (bc_CheckType config) = ''http''
        \<and> getStringLabel labels ControllerBackendHealthCheckLabel [] \<noteq> []
      \<longrightarrow> (\<exists>c. configureHealthCheck L config labels = Inr c
               \<and> bc_HealthCheckPath c = getStringLabel labels ControllerBackendHealthCheckLabel []
               \<and> bc_HealthCheckMethod c =
                   (case map_of labels ControllerBackendHealthMethodLabel of
                      Some m \<Rightarrow> m | None \<Rightarrow> ''OPTIONS'')
               \<and> bc_HealthCheckVersion c = health_check_version (bc_Address config)))
   \<and> (ToLower L (bc_CheckType config) \<noteq> ''none'' \<and> ToLower L (bc_CheckType config) \<noteq> ''basic''
        \<and> ToLower L (bc_CheckType config) \<noteq> ''http''
      \<longrightarrow> configureHealthCheck L config labels = Inl (InvalidCheckType (bc_CheckType config)))
   \<and> ToLower L ''none'' = ''none'' \<and> ToLower L ''basic'' = ''basic''
   \<and> ToLower L ''http'' = ''http''"
  by (simp add: configureHealthCheck_cases ToLower_words getStringLabel_def)

lemma parseTraefikLabels_endpoint:
  "parseTraefikLabels L info labels = Inr cfg \<Longrightarrow> cc_EndpointName cfg = ''default''"
  by (auto simp: parseTraefikLabels_def Let_def split: if_splits option.splits sum.splits)

lemma parseControllerLabels_endpoint:
  "parseControllerLabels L info labels = Inr cfg \<Longrightarrow>
     cc_EndpointName cfg = getStringLabel labels ControllerEndpointLabel ''default''"
  by (auto simp: parseControllerLabels_def Let_def split: if_splits option.splits sum.splits)

lemma parseControllerLabels_mode:
  "HAProxyParser_ParseContainer tcm L info = Inr cfg \<Longrightarrow> cc_ParseMode cfg = TraefikMode \<Longrightarrow>
     \<exists>labels cfg'. info_Labels info = Some labels \<and> parseTraefikLabels L info labels = Inr cfg'
        \<and> cfg = cfg'\<lparr>cc_ParseMode := TraefikMode\<rparr>"
  by (auto simp: HAProxyParser_ParseContainer_def TraefikMode_def
      split: if_splits option.splits sum.splits)

lemma backend_name_nonempty:
  "parseControllerBackendConfig L info labels = Inr b \<Longrightarrow> bc_Name b \<noteq> []"
  by (auto simp: parseControllerBackendConfig_def Let_def configureHealthCheck_cases
      empty_BackendConfig_def split: if_splits sum.splits)

lemma backend_ok:
  "parseControllerBackendConfig L info labels = Inr b \<Longrightarrow>
     bc_Port b = getStringLabel labels ControllerBackendPortLabel []
     \<and> bc_Address b = GetContainerIP info
     \<and> bc_CheckType b = getStringLabel labels ControllerBackendCheckTypeLabel ''basic''
     \<and> (ToLower L (bc_CheckType b) = ''http'' \<longrightarrow> bc_HealthCheckPath b \<noteq> [])"
  by (auto simp: parseControllerBackendConfig_def Let_def configureHealthCheck_cases
      empty_BackendConfig_def split: if_splits sum.splits)

lemma backend_iff:
  "(\<exists>b. parseControllerBackendConfig L info labels = Inr b) \<longleftrightarrow>
     (getStringLabel labels ControllerBackendPortLabel [] \<noteq> []
      \<and> Atoi (getStringLabel labels ControllerBackendPortLabel []) \<noteq> None
      \<and> GetContainerIP info \<noteq> []
      \<and> (let t = ToLower L (getStringLabel labels ControllerBackendCheckTypeLabel ''basic'') in
           t = NoneValue \<or> t = BasicValue
           \<or> (t = HTTPValue \<and> getStringLabel labels ControllerBackendHealthCheckLabel [] \<noteq> [])))"
  by (auto simp: parseControllerBackendConfig_def Let_def configureHealthCheck_cases
      empty_BackendConfig_def NoneValue_def BasicValue_def HTTPValue_def
      split: if_splits sum.splits)

lemma frontend_iff:
  "(\<exists>f. parseControllerFrontendConfig labels = Inr f) \<longleftrightarrow>
     getStringLabel labels ControllerFrontendRuleLabel [] \<noteq> []"
  by (auto simp: parseControllerFrontendConfig_def Let_def)

lemma frontend_rule:
  "parseControllerFrontendConfig labels = Inr f \<Longrightarrow>
     fc_Rule f = getStringLabel labels ControllerFrontendRuleLabel [] \<and> fc_Rule f \<noteq> []"
  by (auto simp: parseControllerFrontendConfig_def Let_def split: if_splits)

lemma validateConfig_passes:
  assumes "parseControllerBackendConfig L info labels = Inr b"
    "parseControllerFrontendConfig labels = Inr f"
  shows "validateConfig \<lparr>cc_BackendConfig = b, cc_FrontendConfig = f, cc_EndpointName = e,
            cc_ParseMode = m, cc_Enabled = en\<rparr> = None"
proof -
  have n: "bc_Name b \<noteq> []" using assms(1) by (rule backend_name_nonempty)
  have o: "bc_Port b = getStringLabel labels ControllerBackendPortLabel []"
    "bc_Address b = GetContainerIP info"
    "ToLower L (bc_CheckType b) = ''http'' \<longrightarrow> bc_HealthCheckPath b \<noteq> []"
    using backend_ok[OF assms(1)] by simp_all
  have p: "bc_Port b \<noteq> []" "bc_Address b \<noteq> []"
    using assms(1) backend_iff[of L info labels] o by auto
  have h: "bc_CheckType b = ''http'' \<longrightarrow> bc_HealthCheckPath b \<noteq> []"
    using o(3) ToLower_words(3)[of L] by auto
  have r: "fc_Rule f \<noteq> []" using frontend_rule[OF assms(2)] by blast
  show ?thesis using n p h r by (simp add: validateConfig_def HTTPValue_def)
qed

lemma parseControllerLabels_iff:
  "(\<exists>cfg. parseControllerLabels L info labels = Inr cfg) \<longleftrightarrow> native_applicable L info labels"
proof
  assume "\<exists>cfg. parseControllerLabels L info labels = Inr cfg"
  then obtain cfg where c: "parseControllerLabels L info labels = Inr cfg" by blast
  then have en: "map_of labels ControllerEnableLabel = Some TrueValue"
    by (auto simp: parseControllerLabels_def split: if_splits)
  from c have req: "validateRequiredLabels labels = None"
    by (auto simp: parseControllerLabels_def split: if_splits option.splits)
  from c en req obtain b where b: "parseControllerBackendConfig L info labels = Inr b"
    by (auto simp: parseControllerLabels_def Let_def split: if_splits option.splits sum.splits)
  from req have "getStringLabel labels ControllerFrontendRuleLabel [] \<noteq> []"
    by (auto simp: validateRequiredLabels_def split: if_splits)
  then show "native_applicable L info labels"
    using en b backend_iff[of L info labels] unfolding native_applicable_def by blast
next
  assume n: "native_applicable L info labels"
  then have en: "map_of labels ControllerEnableLabel = Some TrueValue"
    and port: "getStringLabel labels ControllerBackendPortLabel [] \<noteq> []"
    and rule: "getStringLabel labels ControllerFrontendRuleLabel [] \<noteq> []"
    by (simp_all add: native_applicable_def)
  have req: "validateRequiredLabels labels = None"
    using port rule by (simp add: validateRequiredLabels_def)
  obtain b where b: "parseControllerBackendConfig L info labels = Inr b"
    using n backend_iff[of L info labels] unfolding native_applicable_def by blast
  obtain f where f: "parseControllerFrontendConfig labels = Inr f"
    using rule frontend_iff by blast
  show "\<exists>cfg. parseControllerLabels L info labels = Inr cfg"
    using en req b f validateConfig_passes[OF b f]
    by (simp add: parseControllerLabels_def Let_def)
qed


text \<open>
  C5. A frontend rule that does not parse does not make the native translation fail:
  \<^verbatim>\<open>validateConfig\<close> only checks that the rule is not empty. The container below has the
  rule \<^verbatim>\<open>example.com\<close> and is translated in native mode.
\<close>

theorem parseControllerLabels_badrule_counterexample:
  "parseRule ''example.com'' = Inl (UnsupportedRule ''example.com'')
   \<and> \<not> isl (parseControllerLabels (\<lambda>s. s) badrule_container badrule_labels)
   \<and> fc_Rule (cc_FrontendConfig (projr (ParseContainer False (\<lambda>s. s) badrule_container)))
       = ''example.com''
   \<and> cc_ParseMode (projr (ParseContainer False (\<lambda>s. s) badrule_container)) = ''controller''"
  by code_simp

text \<open>
  C5, as the code behaves: the native translation succeeds exactly when the enable flag
  is \<open>true\<close>, the port and rule labels are non-empty, the port is an integer, an
  address is set and the check type is valid (with a path for \<open>http\<close>). When it does
  not, the translator moves to the compatibility schema if that is enabled and otherwise
  reports that no configuration applies. When it does, the rule is taken as written,
  whether or not it parses.
\<close>

theorem parseControllerLabels_applicable:
  "((\<exists>cfg. parseControllerLabels L info labels = Inr cfg) \<longleftrightarrow> native_applicable L info labels)
   \<and> (info_Labels info = Some labels \<and> \<not> native_applicable L info labels
        \<longrightarrow> ParseContainer tcm L info =
             (if tcm then
                (case parseTraefikLabels L info labels of
                   Inr cfg \<Rightarrow> Inr (cfg\<lparr>cc_ParseMode := TraefikMode\<rparr>)
                 | Inl e \<Rightarrow> Inl NoValidPfSenseLabels)
              else Inl NoValidPfSenseLabels))
   \<and> (info_Labels info = Some labels \<and> native_applicable L info labels
        \<longrightarrow> (\<exists>cfg. ParseContainer tcm L info = Inr cfg \<and> cc_ParseMode cfg = ''controller''
               \<and> fc_Rule (cc_FrontendConfig cfg)
                   = getStringLabel labels ControllerFrontendRuleLabel []))"
proof -
  have a: "(\<exists>cfg. parseControllerLabels L info labels = Inr cfg)
            \<longleftrightarrow> native_applicable L info labels"
    by (rule parseControllerLabels_iff)
  have b: "info_Labels info = Some labels \<and> \<not> native_applicable L info labels
        \<longrightarrow> ParseContainer tcm L info =
             (if tcm then
                (case parseTraefikLabels L info labels of
                   Inr cfg \<Rightarrow> Inr (cfg\<lparr>cc_ParseMode := TraefikMode\<rparr>)
                 | Inl e \<Rightarrow> Inl NoValidPfSenseLabels)
              else Inl NoValidPfSenseLabels)"
  proof
    assume h: "info_Labels info = Some labels \<and> \<not> native_applicable L info labels"
    then obtain e where "parseControllerLabels L info labels = Inl e"
      using a by (cases "parseControllerLabels L info labels") auto
    then show "ParseContainer tcm L info =
             (if tcm then
                (case parseTraefikLabels L info labels of
                   Inr cfg \<Rightarrow> Inr (cfg\<lparr>cc_ParseMode := TraefikMode\<rparr>)
                 | Inl e \<Rightarrow> Inl NoValidPfSenseLabels)
              else Inl NoValidPfSenseLabels)"
      using h by (simp add: ParseContainer_def HAProxyParser_ParseContainer_def split: sum.splits)
  qed
  have c: "info_Labels info = Some labels \<and> native_applicable L info labels
        \<longrightarrow> (\<exists>cfg. ParseContainer tcm L info = Inr cfg \<and> cc_ParseMode cfg = ''controller''
               \<and> fc_Rule (cc_FrontendConfig cfg)
                   = getStringLabel labels ControllerFrontendRuleLabel [])"
  proof
    assume h: "info_Labels info = Some labels \<and> native_applicable L info labels"
    then obtain cfg where cfg: "parseControllerLabels L info labels = Inr cfg"
      using a by blast
    then obtain f where "parseControllerFrontendConfig labels = Inr f"
      "cc_FrontendConfig cfg = f"
      by (auto simp: parseControllerLabels_def Let_def split: if_splits option.splits sum.splits)
    then have "fc_Rule (cc_FrontendConfig cfg) = getStringLabel labels ControllerFrontendRuleLabel []"
      using frontend_rule by blast
    then show "\<exists>cfg. ParseContainer tcm L info = Inr cfg \<and> cc_ParseMode cfg = ''controller''
               \<and> fc_Rule (cc_FrontendConfig cfg)
                   = getStringLabel labels ControllerFrontendRuleLabel []"
      using h cfg by (simp add: ParseContainer_def HAProxyParser_ParseContainer_def)
  qed
  show ?thesis using a b c by blast
qed

theorem parseControllerLabels_applicable_witness:
  "native_applicable (\<lambda>s. s) badrule_container badrule_labels
   \<and> (\<exists>cfg. parseControllerLabels (\<lambda>s. s) badrule_container badrule_labels = Inr cfg)
   \<and> \<not> native_applicable (\<lambda>s. s) traefik_container traefik_labels
   \<and> ParseContainer False (\<lambda>s. s) traefik_container = Inl NoValidPfSenseLabels"
proof -
  have a: "native_applicable (\<lambda>s. s) badrule_container badrule_labels" by code_simp
  have b: "\<not> native_applicable (\<lambda>s. s) traefik_container traefik_labels" by code_simp
  have l: "info_Labels traefik_container = Some traefik_labels"
    by (simp add: traefik_container_def)
  show ?thesis
    using a b l parseControllerLabels_applicable[of "\<lambda>s. s" badrule_container badrule_labels]
      parseControllerLabels_applicable[of "\<lambda>s. s" traefik_container traefik_labels False]
    by auto
qed


section \<open>The retry wrapper\<close>

lemma retry_loop_done:
  "\<not> attempt < RetryAttempts (Global (m_config m)) \<Longrightarrow>
     retry_loop m operation attempt lastErr env
       = (Some (OperationFailed (RetryAttempts (Global (m_config m))) lastErr), env)"
  by simp

lemma before_attempt_step:
  "before_attempt m operation env (Suc k)
     = Sleep (of_nat (Suc k) * RetryDelay (Global (m_config m))) (snd (outcome m operation env k))"
  by (simp add: outcome_def)

text \<open>The state the loop holds when \<open>k\<close> attempts have failed.\<close>

lemma retry_loop_step:
  assumes "int k < RetryAttempts (Global (m_config m))"
    and "env' = (if k = 0 then env else snd (outcome m operation env (k - 1)))"
  shows "retry_loop m operation (int k) lastErr env'
     = (case outcome m operation env k of
          (Some err, env2) \<Rightarrow> retry_loop m operation (int (Suc k)) (Some err) env2
        | (None, env2) \<Rightarrow> (None, env2))"
proof -
  have b: "(if 0 < int k then Sleep (of_int (int k) * RetryDelay (Global (m_config m))) env'
            else env') = before_attempt m operation env k"
  proof (cases k)
    case 0 then show ?thesis using assms(2) by simp
  next
    case (Suc j)
    then show ?thesis using assms(2) by (simp add: outcome_def)
  qed
  have "retry_loop m operation (int k) lastErr env'
     = (case operation (before_attempt m operation env k) of
          (Some err, env2) \<Rightarrow> retry_loop m operation (int k + 1) (Some err) env2
        | (None, env2) \<Rightarrow> (None, env2))"
    using assms(1) b by (subst retry_loop.simps) (simp add: Let_def del: retry_loop.simps)
  moreover have e: "int (Suc k) = int k + 1" by simp
  ultimately show ?thesis unfolding outcome_def e by blast
qed

lemma retry_loop_success:
  assumes "int j < RetryAttempts (Global (m_config m))"
    and "\<forall>i<j. fst (outcome m operation env i) \<noteq> None"
    and "fst (outcome m operation env j) = None"
    and "k \<le> j"
    and "env' = (if k = 0 then env else snd (outcome m operation env (k - 1)))"
  shows "retry_loop m operation (int k) lastErr env' = (None, snd (outcome m operation env j))"
  using assms(4,5)
proof (induction "j - k" arbitrary: k lastErr env')
  case 0
  then have kj: "k = j" by simp
  have "int k < RetryAttempts (Global (m_config m))" using assms(1) kj by simp
  then show ?case
    using retry_loop_step[of k m env' env operation lastErr] "0.prems"(2) assms(3) kj
    by (cases "outcome m operation env j") (simp del: retry_loop.simps)
next
  case (Suc d)
  then have lt: "k < j" by simp
  then have "int k < RetryAttempts (Global (m_config m))" using assms(1) by simp
  then have st: "retry_loop m operation (int k) lastErr env'
     = (case outcome m operation env k of
          (Some err, env2) \<Rightarrow> retry_loop m operation (int (Suc k)) (Some err) env2
        | (None, env2) \<Rightarrow> (None, env2))"
    using retry_loop_step[of k m env' env operation lastErr] Suc.prems(2) by blast
  obtain err env2 where o: "outcome m operation env k = (Some err, env2)"
    using assms(2) lt by (cases "outcome m operation env k") (auto)
  have "retry_loop m operation (int (Suc k)) (Some err) env2 = (None, snd (outcome m operation env j))"
  proof (rule Suc.hyps(1))
    show "d = j - Suc k" using Suc.hyps(2) by simp
    show "Suc k \<le> j" using lt by simp
    show "env2 = (if Suc k = 0 then env else snd (outcome m operation env (Suc k - 1)))"
      using o by simp
  qed
  then show ?case using st o by (simp del: retry_loop.simps)
qed

lemma retry_loop_exhausted:
  assumes "RetryAttempts (Global (m_config m)) = int n"
    and "\<forall>i<n. fst (outcome m operation env i) \<noteq> None"
    and "k \<le> n"
    and "env' = (if k = 0 then env else snd (outcome m operation env (k - 1)))"
  shows "retry_loop m operation (int k) lastErr env'
     = (Some (OperationFailed (int n)
               (if k = n then lastErr else fst (outcome m operation env (n - 1)))),
        if n = 0 then env else snd (outcome m operation env (n - 1)))"
  using assms(3,4)
proof (induction "n - k" arbitrary: k lastErr env')
  case 0
  then have kn: "k = n" by simp
  then have "\<not> int k < RetryAttempts (Global (m_config m))" using assms(1) by simp
  then have "retry_loop m operation (int k) lastErr env'
       = (Some (OperationFailed (RetryAttempts (Global (m_config m))) lastErr), env')"
    by (rule retry_loop_done)
  then show ?case using kn assms(1) "0.prems"(2) by (simp del: retry_loop.simps)
next
  case (Suc d)
  then have lt: "k < n" by simp
  then have "int k < RetryAttempts (Global (m_config m))" using assms(1) by simp
  then have st: "retry_loop m operation (int k) lastErr env'
     = (case outcome m operation env k of
          (Some err, env2) \<Rightarrow> retry_loop m operation (int (Suc k)) (Some err) env2
        | (None, env2) \<Rightarrow> (None, env2))"
    using retry_loop_step[of k m env' env operation lastErr] Suc.prems(2) by blast
  obtain err env2 where o: "outcome m operation env k = (Some err, env2)"
    using assms(2) lt by (cases "outcome m operation env k") (auto)
  have r: "retry_loop m operation (int (Suc k)) (Some err) env2
     = (Some (OperationFailed (int n)
               (if Suc k = n then Some err else fst (outcome m operation env (n - 1)))),
        if n = 0 then env else snd (outcome m operation env (n - 1)))"
  proof (rule Suc.hyps(1))
    show "d = n - Suc k" using Suc.hyps(2) by simp
    show "Suc k \<le> n" using lt by simp
    show "env2 = (if Suc k = 0 then env else snd (outcome m operation env (Suc k - 1)))"
      using o by simp
  qed
  have "(if Suc k = n then Some err else fst (outcome m operation env (n - 1)))
        = fst (outcome m operation env (n - 1))"
    using o by auto
  then show ?case using st o r lt by (simp del: retry_loop.simps)
qed

lemma slept_before_attempt:
  assumes "\<forall>e. slept (snd (operation e)) = slept e"
  shows "slept (before_attempt m operation env k)
     = slept env @ map (\<lambda>i. of_nat i * RetryDelay (Global (m_config m))) [1..<Suc k]"
proof (induction k)
  case 0
  then show ?case by simp
next
  case (Suc k)
  have "slept (before_attempt m operation env (Suc k))
      = slept (snd (operation (before_attempt m operation env k)))
        @ [of_nat (Suc k) * RetryDelay (Global (m_config m))]"
    by (simp add: Sleep_def)
  also have "\<dots> = slept (before_attempt m operation env k)
        @ [of_nat (Suc k) * RetryDelay (Global (m_config m))]"
    using assms by simp
  finally show ?case using Suc by simp
qed

lemma counting_bound:
  "fst (world (snd (retry_loop m (counting operation) attempt lastErr env)))
     \<le> fst (world env) + nat (RetryAttempts (Global (m_config m)) - attempt)"
proof (induction m "counting operation" attempt lastErr env rule: retry_loop.induct)
  case (1 m attempt lastErr env)
  let ?N = "RetryAttempts (Global (m_config m))"
  show ?case
  proof (cases "attempt < ?N")
    case False
    then show ?thesis by simp
  next
    case True
    define env1 where "env1 = (if 0 < attempt
                     then Sleep (of_int attempt * RetryDelay (Global (m_config m))) env
                     else env)"
    have w1: "fst (world env1) = fst (world env)" by (simp add: env1_def Sleep_def)
    obtain r env2 where o: "counting operation env1 = (r, env2)" by (cases "counting operation env1")
    have w2: "fst (world env2) = Suc (fst (world env1))"
      using o by (auto simp: counting_def split: prod.splits)
    have unf: "retry_loop m (counting operation) attempt lastErr env
       = (case counting operation env1 of
           (Some err, env2) \<Rightarrow> retry_loop m (counting operation) (attempt + 1) (Some err) env2
         | (None, env2) \<Rightarrow> (None, env2))"
      using True by (subst retry_loop.simps) (simp add: env1_def Let_def del: retry_loop.simps)
    show ?thesis
    proof (cases r)
      case None
      then show ?thesis using unf o w1 w2 True by (simp del: retry_loop.simps)
    next
      case (Some err)
      have "fst (world (snd (retry_loop m (counting operation) (attempt + 1) (Some err) env2)))
          \<le> fst (world env2) + nat (?N - (attempt + 1))"
        using 1[OF True env1_def o[symmetric] Some] .
      then show ?thesis using unf o Some w1 w2 True by (simp del: retry_loop.simps)
    qed
  qed
qed


lemma delay_exact:
  assumes "- (2 ^ 63) \<le> int k * sint D" "int k * sint D < 2 ^ 63"
  shows "sint (of_nat k * D :: 64 word) = int k * sint D"
proof -
  have "(of_nat k * D :: 64 word) = word_of_int (int k * sint D)"
    by simp
  then have "sint (of_nat k * D :: 64 word) = signed_take_bit 63 (int k * sint D)"
    by (simp only: sint_sbintrunc') simp
  then show ?thesis using assms by (simp add: signed_take_bit_int_eq_self)
qed

text \<open>
  C2. With \<open>N\<close> attempts and base delay \<open>D\<close>: the operation runs at most \<open>N\<close> times;
  the run number \<open>k + 1\<close> is preceded by a sleep of \<open>k\<close> times \<open>D\<close> (none before the
  first); the wrapper returns success at the first run that succeeds, and after \<open>N\<close>
  failed runs the error that wraps the error of the last run.
\<close>

theorem retryOperation_policy:
  "(int j < RetryAttempts (Global (m_config m))
      \<and> (\<forall>i<j. fst (outcome m operation env i) \<noteq> None)
      \<and> fst (outcome m operation env j) = None
      \<longrightarrow> retryOperation m operation env = (None, snd (outcome m operation env j)))
   \<and> (RetryAttempts (Global (m_config m)) = int n
      \<and> (\<forall>i<n. fst (outcome m operation env i) \<noteq> None)
      \<longrightarrow> retryOperation m operation env
           = (Some (OperationFailed (int n)
                      (if n = 0 then None else fst (outcome m operation env (n - 1)))),
              if n = 0 then env else snd (outcome m operation env (n - 1))))
   \<and> before_attempt m operation env 0 = env
   \<and> before_attempt m operation env (Suc k)
       = Sleep (of_nat (Suc k) * RetryDelay (Global (m_config m)))
           (snd (outcome m operation env k))
   \<and> (- (2 ^ 63) \<le> int (Suc k) * sint (RetryDelay (Global (m_config m)))
        \<and> int (Suc k) * sint (RetryDelay (Global (m_config m))) < 2 ^ 63
      \<longrightarrow> sint (of_nat (Suc k) * RetryDelay (Global (m_config m)))
           = int (Suc k) * sint (RetryDelay (Global (m_config m))))
   \<and> ((\<forall>e. slept (snd (operation e)) = slept e)
      \<longrightarrow> slept (before_attempt m operation env k)
           = slept env @ map (\<lambda>i. of_nat i * RetryDelay (Global (m_config m))) [1..<Suc k])
   \<and> fst (world (snd (retryOperation m (counting operation) cenv)))
       \<le> fst (world cenv) + nat (RetryAttempts (Global (m_config m)))"
proof -
  have a: "int j < RetryAttempts (Global (m_config m))
      \<and> (\<forall>i<j. fst (outcome m operation env i) \<noteq> None)
      \<and> fst (outcome m operation env j) = None
      \<longrightarrow> retryOperation m operation env = (None, snd (outcome m operation env j))"
    unfolding retryOperation_def
    using retry_loop_success[of j m operation env 0 env None] by simp
  have b: "RetryAttempts (Global (m_config m)) = int n
      \<and> (\<forall>i<n. fst (outcome m operation env i) \<noteq> None)
      \<longrightarrow> retryOperation m operation env
           = (Some (OperationFailed (int n)
                      (if n = 0 then None else fst (outcome m operation env (n - 1)))),
              if n = 0 then env else snd (outcome m operation env (n - 1)))"
    unfolding retryOperation_def
    using retry_loop_exhausted[of m n operation env 0 env None] by (cases n) auto
  have c: "before_attempt m operation env (Suc k)
       = Sleep (of_nat (Suc k) * RetryDelay (Global (m_config m)))
           (snd (outcome m operation env k))"
    by (rule before_attempt_step)
  have d: "- (2 ^ 63) \<le> int (Suc k) * sint (RetryDelay (Global (m_config m)))
        \<and> int (Suc k) * sint (RetryDelay (Global (m_config m))) < 2 ^ 63
      \<longrightarrow> sint (of_nat (Suc k) * RetryDelay (Global (m_config m)))
           = int (Suc k) * sint (RetryDelay (Global (m_config m)))"
    using delay_exact[of "Suc k" "RetryDelay (Global (m_config m))"] by blast
  have e: "(\<forall>e. slept (snd (operation e)) = slept e)
      \<longrightarrow> slept (before_attempt m operation env k)
           = slept env @ map (\<lambda>i. of_nat i * RetryDelay (Global (m_config m))) [1..<Suc k]"
    using slept_before_attempt[of operation m env k] by blast
  have f: "fst (world (snd (retryOperation m (counting operation) cenv)))
       \<le> fst (world cenv) + nat (RetryAttempts (Global (m_config m)))"
    unfolding retryOperation_def using counting_bound[of m operation 0 None cenv] by simp
  show ?thesis using a b c d e f by simp
qed

lemmas retry_eval = NewManager_def retry_config_def flaky_def start_def outcome_def Sleep_def

theorem retryOperation_policy_witness:
  "retryOperation (NewManager (retry_config 3 5000000000)) (flaky 2) (start 0)
     = (None, \<lparr>world = 3, sent = [], slept = [5000000000, 10000000000]\<rparr>)
   \<and> sum_list (map sint [5000000000, 10000000000 :: Duration]) = 15000000000"
proof -
  let ?m = "NewManager (retry_config 3 5000000000)"
  have n: "int 2 < RetryAttempts (Global (m_config ?m))" by (simp add: retry_eval)
  have o0: "fst (outcome ?m (flaky 2) (start 0) 0) \<noteq> None" by (simp add: retry_eval)
  have o1: "fst (outcome ?m (flaky 2) (start 0) 1) \<noteq> None" by (simp add: retry_eval)
  have o2: "outcome ?m (flaky 2) (start 0) 2
     = (None, \<lparr>world = 3, sent = [], slept = [5000000000, 10000000000]\<rparr>)"
    by (simp add: retry_eval numeral_2_eq_2)
  have f: "\<forall>i<2. fst (outcome ?m (flaky 2) (start 0) i) \<noteq> None"
    using o0 o1 by (auto simp: less_Suc_eq numeral_2_eq_2)
  have "retryOperation ?m (flaky 2) (start 0) = (None, snd (outcome ?m (flaky 2) (start 0) 2))"
    using retryOperation_policy[of 2 ?m "flaky 2" "start 0"] n f o2 by simp
  then show ?thesis using o2 by simp
qed

text \<open>
  C10. With zero attempts the wrapper returns an error without running the operation:
  the state is unchanged, the error reports 0 attempts and wraps no error. The commit
  and the two synchronisations then fail whatever the remote system answers.
\<close>

theorem retryOperation_zero_attempts:
  assumes "RetryAttempts (Global (m_config m)) = 0"
  shows "retryOperation m operation env = (Some (OperationFailed 0 None), env)
       \<and> applyChangesWithRetry m tr client env = (Some (OperationFailed 0 None), env)
       \<and> fst (syncBackend m L tr client containerConfig env) \<noteq> None
       \<and> fst (syncFrontend m tr client containerConfig env) \<noteq> None"
proof -
  have r: "retryOperation m op e = (Some (OperationFailed 0 None), e)" for op and e :: "'a env"
    using assms by (simp add: retryOperation_def)
  have b: "fst (syncBackend m L tr client containerConfig env) \<noteq> None"
    by (simp add: syncBackend_def Let_def r split: prod.splits sum.splits option.splits)
  have f: "fst (syncFrontend m tr client containerConfig env) \<noteq> None"
    by (simp add: syncFrontend_def r split: prod.splits sum.splits option.splits list.splits)
  show ?thesis using r b f by (simp add: applyChangesWithRetry_def)
qed

theorem retryOperation_zero_attempts_witness:
  "retryOperation (NewManager (retry_config 0 5000000000)) (flaky 0) (start 0)
     = (Some (OperationFailed 0 None), start 0)
   \<and> flaky 0 (start 0) = (None, \<lparr>world = 1, sent = [], slept = []\<rparr>)"
proof -
  have "RetryAttempts (Global (m_config (NewManager (retry_config 0 5000000000)))) = 0"
    by (simp add: retry_eval)
  then show ?thesis
    using retryOperation_zero_attempts[of "NewManager (retry_config 0 5000000000)"
        "flaky 0" "start 0"]
    by (simp add: flaky_def start_def)
qed


section \<open>Requests sent by the client\<close>

lemma makeRequest_sent:
  "sent (snd (makeRequest tr c method endpoint body env))
     = sent env @ [\<lparr>req_Method = method, req_URL = baseURL c @ endpoint,
                     req_APIKey = apiKey c, req_Body = map_option marshal body\<rparr>]"
  by (simp add: makeRequest_def Let_def split: prod.splits http_result.splits)

lemma makeRequest_slept:
  "slept (snd (makeRequest tr c method endpoint body env)) = slept env"
  by (simp add: makeRequest_def Let_def split: prod.splits http_result.splits)

lemma UpdateHAProxyBackend_sent:
  "sent (snd (UpdateHAProxyBackend tr c b env)) = sent env @ [update_backend_request c b]"
  using makeRequest_sent[of tr c "''PATCH''" "''/services/haproxy/backend''" "Some (BackendBody b)" env]
  by (auto simp: UpdateHAProxyBackend_def update_backend_request_def split: prod.splits sum.splits)

lemma CreateHAProxyBackend_sent:
  "sent (snd (CreateHAProxyBackend tr c b env)) = sent env @ [create_backend_request c b]"
  using makeRequest_sent[of tr c "''POST''" "''/services/haproxy/backend''" "Some (BackendBody b)" env]
  by (auto simp: CreateHAProxyBackend_def create_backend_request_def split: prod.splits sum.splits)




text \<open>What holds of the state when the wrapper starts and is kept by the operation and
  by sleeping, holds when the wrapper returns.\<close>

lemma retry_loop_invariant_all:
  "(\<forall>e r e'. I e \<longrightarrow> operation e = (r, e') \<longrightarrow> I e') \<Longrightarrow> (\<forall>d e. I e \<longrightarrow> I (Sleep d e))
     \<Longrightarrow> I env \<Longrightarrow> I (snd (retry_loop m operation attempt lastErr env))"
proof (induction m operation attempt lastErr env rule: retry_loop.induct)
  case (1 m operation attempt lastErr env)
  show ?case
  proof (cases "attempt < RetryAttempts (Global (m_config m))")
    case False
    then show ?thesis using "1.prems" by simp
  next
    case True
    define env1 where "env1 = (if 0 < attempt
                     then Sleep (of_int attempt * RetryDelay (Global (m_config m))) env
                     else env)"
    have i1: "I env1" using "1.prems" by (simp add: env1_def)
    obtain r env2 where o: "operation env1 = (r, env2)" by (cases "operation env1")
    have i2: "I env2" using "1.prems"(1) i1 o by blast
    have unf: "retry_loop m operation attempt lastErr env
       = (case operation env1 of
           (Some err, env2) \<Rightarrow> retry_loop m operation (attempt + 1) (Some err) env2
         | (None, env2) \<Rightarrow> (None, env2))"
      using True by (subst retry_loop.simps) (simp add: env1_def Let_def del: retry_loop.simps)
    show ?thesis
    proof (cases r)
      case None
      then show ?thesis using unf o i2 by (simp del: retry_loop.simps)
    next
      case (Some err)
      have "I (snd (retry_loop m operation (attempt + 1) (Some err) env2))"
        using "1.IH"[OF True env1_def o[symmetric] Some "1.prems"(1) "1.prems"(2) i2] .
      then show ?thesis using unf o Some by (simp del: retry_loop.simps)
    qed
  qed
qed

lemma retry_loop_invariant:
  assumes "\<And>e r e'. I e \<Longrightarrow> operation e = (r, e') \<Longrightarrow> I e'"
    and "\<And>d e. I e \<Longrightarrow> I (Sleep d e)"
    and "I env"
  shows "I (snd (retry_loop m operation attempt lastErr env))"
proof (rule retry_loop_invariant_all)
  show "\<forall>e r e'. I e \<longrightarrow> operation e = (r, e') \<longrightarrow> I e'" using assms(1) by blast
  show "\<forall>d e. I e \<longrightarrow> I (Sleep d e)" using assms(2) by blast
  show "I env" by (rule assms(3))
qed

lemma retryOperation_sent:
  assumes "\<And>e. \<exists>reqs. sent (snd (operation e)) = sent e @ reqs \<and> set reqs \<subseteq> S"
  shows "\<exists>reqs. sent (snd (retryOperation m operation env)) = sent env @ reqs \<and> set reqs \<subseteq> S"
proof -
  define I where "I = (\<lambda>e :: 'a env. \<exists>reqs. sent e = sent env @ reqs \<and> set reqs \<subseteq> S)"
  have "I (snd (retry_loop m operation 0 None env))"
  proof (rule retry_loop_invariant)
    show "I env" by (simp add: I_def)
    show "I (Sleep d e)" if "I e" for d e using that by (simp add: I_def Sleep_def)
    show "I e'" if i: "I e" and o: "operation e = (r, e')" for e r e'
    proof -
      obtain a where a: "sent e = sent env @ a" "set a \<subseteq> S" using i by (auto simp: I_def)
      obtain b where b: "sent e' = sent e @ b" "set b \<subseteq> S" using assms[of e] o by auto
      have "sent e' = sent env @ (a @ b) \<and> set (a @ b) \<subseteq> S" using a b by simp
      then show ?thesis unfolding I_def by blast
    qed
  qed
  then show ?thesis by (simp add: I_def retryOperation_def)
qed

lemma retryOperation_first:
  assumes "0 < RetryAttempts (Global (m_config m))"
  shows "retryOperation m operation env
     = (case operation env of
          (Some err, env2) \<Rightarrow> retry_loop m operation (0 + 1) (Some err) env2
        | (None, env2) \<Rightarrow> (None, env2))"
  unfolding retryOperation_def using assms
  by (subst retry_loop.simps) (simp add: Let_def del: retry_loop.simps)

lemma retryOperation_first_sent:
  assumes "0 < RetryAttempts (Global (m_config m))"
    and "\<And>e. \<exists>reqs. sent (snd (operation e)) = sent e @ q # reqs"
  shows "\<exists>reqs. sent (snd (retryOperation m operation env)) = sent env @ q # reqs"
proof -
  obtain r env2 where o: "operation env = (r, env2)" by (cases "operation env")
  obtain a where a: "sent env2 = sent env @ q # a" using assms(2)[of env] o by auto
  define I where "I = (\<lambda>e :: 'a env. \<exists>reqs. sent e = sent env @ q # reqs)"
  show ?thesis
  proof (cases r)
    case None
    then show ?thesis using retryOperation_first[OF assms(1), of operation env] o a by simp
  next
    case (Some err)
    have "I (snd (retry_loop m operation (0 + 1) (Some err) env2))"
    proof (rule retry_loop_invariant)
      show "I env2" using a by (simp add: I_def)
      show "I (Sleep d e)" if "I e" for d e using that by (simp add: I_def Sleep_def)
      show "I e'" if i: "I e" and o: "operation e = (r, e')" for e r e'
      proof -
        obtain x where x: "sent e = sent env @ q # x" using i by (auto simp: I_def)
        obtain y where y: "sent e' = sent e @ q # y" using assms(2)[of e] o by auto
        have "sent e' = sent env @ q # (x @ q # y)" using x y by simp
        then show ?thesis unfolding I_def by blast
      qed
    qed
    then show ?thesis
      using retryOperation_first[OF assms(1), of operation env] o Some by (simp add: I_def)
  qed
qed


section \<open>Create or update of a backend\<close>

lemma payload_id_update:
  "payload_id (update_backend_request c b) = (if hb_ID b = 0 then None else Some (hb_ID b))"
  by (simp add: payload_id_def update_backend_request_def marshal_backend_def omitempty_def
      jnum_def)

lemma syncBackend_requests:
  assumes "FindBackendByName tr client (hb_Name (ConvertToHAProxyBackend L cc)) env
             = (Inr found, env1)"
  shows "\<exists>reqs. sent (snd (syncBackend m L tr client cc env)) = sent env1 @ reqs
     \<and> set reqs \<subseteq>
         {case found of
            None \<Rightarrow> create_backend_request client (ConvertToHAProxyBackend L cc)
          | Some existing \<Rightarrow>
              update_backend_request client
                ((ConvertToHAProxyBackend L cc)\<lparr>hb_ID := hb_ID existing\<rparr>)}"
proof (cases found)
  case None
  have "\<exists>reqs. sent (snd (retryOperation m
            (CreateHAProxyBackend tr client (ConvertToHAProxyBackend L cc)) env1))
          = sent env1 @ reqs
        \<and> set reqs \<subseteq> {create_backend_request client (ConvertToHAProxyBackend L cc)}"
    by (rule retryOperation_sent) (simp add: CreateHAProxyBackend_sent)
  then show ?thesis using assms None by (simp add: syncBackend_def Let_def)
next
  case (Some existing)
  have "\<exists>reqs. sent (snd (retryOperation m
            (UpdateHAProxyBackend tr client
               ((ConvertToHAProxyBackend L cc)\<lparr>hb_ID := hb_ID existing\<rparr>)) env1))
          = sent env1 @ reqs
        \<and> set reqs \<subseteq> {update_backend_request client
                           ((ConvertToHAProxyBackend L cc)\<lparr>hb_ID := hb_ID existing\<rparr>)}"
    by (rule retryOperation_sent) (simp add: UpdateHAProxyBackend_sent)
  then show ?thesis using assms Some by (simp add: syncBackend_def Let_def)
qed

lemma syncBackend_first_request:
  assumes "FindBackendByName tr client (hb_Name (ConvertToHAProxyBackend L cc)) env
             = (Inr found, env1)"
    and "0 < RetryAttempts (Global (m_config m))"
  shows "\<exists>reqs. sent (snd (syncBackend m L tr client cc env))
     = sent env1 @
         (case found of
            None \<Rightarrow> create_backend_request client (ConvertToHAProxyBackend L cc)
          | Some existing \<Rightarrow>
              update_backend_request client
                ((ConvertToHAProxyBackend L cc)\<lparr>hb_ID := hb_ID existing\<rparr>)) # reqs"
proof (cases found)
  case None
  have "\<exists>reqs. sent (snd (retryOperation m
            (CreateHAProxyBackend tr client (ConvertToHAProxyBackend L cc)) env1))
          = sent env1 @ create_backend_request client (ConvertToHAProxyBackend L cc) # reqs"
    using assms(2) by (rule retryOperation_first_sent) (simp add: CreateHAProxyBackend_sent)
  then show ?thesis using assms None by (simp add: syncBackend_def Let_def)
next
  case (Some existing)
  have "\<exists>reqs. sent (snd (retryOperation m
            (UpdateHAProxyBackend tr client
               ((ConvertToHAProxyBackend L cc)\<lparr>hb_ID := hb_ID existing\<rparr>)) env1))
          = sent env1 @ update_backend_request client
                           ((ConvertToHAProxyBackend L cc)\<lparr>hb_ID := hb_ID existing\<rparr>) # reqs"
    using assms(2) by (rule retryOperation_first_sent) (simp add: UpdateHAProxyBackend_sent)
  then show ?thesis using assms Some by (simp add: syncBackend_def Let_def)
qed

text \<open>
  C7. The remote system holds the backend of the container under the identifier 0. The
  reconciler finds it and sends an update, never a create; the identifier is copied into
  the desired backend, and \<^verbatim>\<open>json.Marshal\<close> leaves the zero field out
  (\<^verbatim>\<open>json:"id,omitempty"\<close>): the three attempts send a body with no identifier and
  the update fails. Under the identifier 7 the body carries 7 and the update succeeds.
\<close>

theorem syncBackend_identifier_zero:
  "map method_and_id
     (sent (snd (syncBackend example_manager (\<lambda>s. s) (pfsense (baseURL example_client))
                   example_client (web_config ''a'' ''a.example.com'' ''a-backend'')
                   (start (remote_with_backend 0)))))
     = [(''GET'', None), (''PATCH'', None), (''PATCH'', None), (''PATCH'', None)]
   \<and> fst (syncBackend example_manager (\<lambda>s. s) (pfsense (baseURL example_client))
            example_client (web_config ''a'' ''a.example.com'' ''a-backend'')
            (start (remote_with_backend 0)))
     = Some (OperationFailed 3 (Some (APIStatusError 400 ''field id is required'')))
   \<and> map method_and_id
     (sent (snd (syncBackend example_manager (\<lambda>s. s) (pfsense (baseURL example_client))
                   example_client (web_config ''a'' ''a.example.com'' ''a-backend'')
                   (start (remote_with_backend 7)))))
     = [(''GET'', None), (''PATCH'', Some 7)]"
  by code_simp


section \<open>The shared frontend\<close>
































section \<open>Endpoint selection\<close>

text \<open>
  C9. A configuration produced from the Traefik labels has the endpoint name
  \<open>default\<close> whatever the label \<^verbatim>\<open>pfsense-controller.endpoint\<close> says. The native path
  takes the endpoint name from that label, \<open>default\<close> when it is absent: every
  container to which the native schema applies is translated with that endpoint name.
\<close>

theorem traefik_endpoint_default:
  "(parseTraefikLabels L info labels = Inr cfg \<longrightarrow> cc_EndpointName cfg = ''default'')
   \<and> (ParseContainer tcm L info = Inr cfg \<and> cc_ParseMode cfg = TraefikMode
        \<longrightarrow> cc_EndpointName cfg = ''default'')
   \<and> (parseControllerLabels L info labels = Inr cfg
        \<longrightarrow> cc_EndpointName cfg = (case map_of labels ControllerEndpointLabel of
                                      Some e \<Rightarrow> e | None \<Rightarrow> ''default''))
   \<and> (native_applicable L info labels
        \<longrightarrow> (\<exists>c. parseControllerLabels L info labels = Inr c
               \<and> cc_EndpointName c = (case map_of labels ControllerEndpointLabel of
                                         Some e \<Rightarrow> e | None \<Rightarrow> ''default'')))
   \<and> (native_applicable L info labels \<and> info_Labels info = Some labels
        \<longrightarrow> (\<exists>c. ParseContainer tcm L info = Inr c \<and> cc_ParseMode c = ''controller''
               \<and> cc_EndpointName c = (case map_of labels ControllerEndpointLabel of
                                         Some e \<Rightarrow> e | None \<Rightarrow> ''default'')))"
proof -
  have a: "parseTraefikLabels L info labels = Inr cfg \<longrightarrow> cc_EndpointName cfg = ''default''"
    using parseTraefikLabels_endpoint by blast
  have b: "ParseContainer tcm L info = Inr cfg \<and> cc_ParseMode cfg = TraefikMode
        \<longrightarrow> cc_EndpointName cfg = ''default''"
  proof
    assume h: "ParseContainer tcm L info = Inr cfg \<and> cc_ParseMode cfg = TraefikMode"
    then have "HAProxyParser_ParseContainer tcm L info = Inr cfg"
      by (auto simp: ParseContainer_def split: sum.splits)
    then obtain labels' cfg' where "parseTraefikLabels L info labels' = Inr cfg'"
      "cfg = cfg'\<lparr>cc_ParseMode := TraefikMode\<rparr>"
      using parseControllerLabels_mode h by blast
    then show "cc_EndpointName cfg = ''default''"
      using parseTraefikLabels_endpoint by fastforce
  qed
  have c: "parseControllerLabels L info labels = Inr c
        \<Longrightarrow> cc_EndpointName c = (case map_of labels ControllerEndpointLabel of
                                      Some e \<Rightarrow> e | None \<Rightarrow> ''default'')" for c
    using parseControllerLabels_endpoint[of L info labels c] by (simp add: getStringLabel_def)
  have d: "native_applicable L info labels
        \<longrightarrow> (\<exists>c. parseControllerLabels L info labels = Inr c
               \<and> cc_EndpointName c = (case map_of labels ControllerEndpointLabel of
                                         Some e \<Rightarrow> e | None \<Rightarrow> ''default''))"
    using parseControllerLabels_iff[of L info labels] c by blast
  have e: "native_applicable L info labels \<and> info_Labels info = Some labels
        \<longrightarrow> (\<exists>c. ParseContainer tcm L info = Inr c \<and> cc_ParseMode c = ''controller''
               \<and> cc_EndpointName c = (case map_of labels ControllerEndpointLabel of
                                         Some e \<Rightarrow> e | None \<Rightarrow> ''default''))"
  proof
    assume h: "native_applicable L info labels \<and> info_Labels info = Some labels"
    then obtain c0 where c0: "parseControllerLabels L info labels = Inr c0"
      using parseControllerLabels_iff[of L info labels] by blast
    have "ParseContainer tcm L info = Inr (c0\<lparr>cc_ParseMode := ''controller''\<rparr>)"
      using h c0 by (simp add: ParseContainer_def HAProxyParser_ParseContainer_def)
    then show "\<exists>c. ParseContainer tcm L info = Inr c \<and> cc_ParseMode c = ''controller''
               \<and> cc_EndpointName c = (case map_of labels ControllerEndpointLabel of
                                         Some e \<Rightarrow> e | None \<Rightarrow> ''default'')"
      using c[OF c0] by simp
  qed
  show ?thesis using a b c[of cfg] d e by blast
qed

theorem traefik_endpoint_default_witness:
  "map_of traefik_labels ControllerEndpointLabel = Some ''staging''
   \<and> \<not> isl (parseTraefikLabels (\<lambda>s. s) traefik_container traefik_labels)
   \<and> cc_EndpointName (projr (parseTraefikLabels (\<lambda>s. s) traefik_container traefik_labels))
       = ''default''
   \<and> cc_EndpointName (projr (ParseContainer True (\<lambda>s. s) traefik_container)) = ''default''
   \<and> cc_ParseMode (projr (ParseContainer True (\<lambda>s. s) traefik_container)) = ''traefik''
   \<and> map_of (native_labels ''basic'' []) ControllerEndpointLabel = Some ''staging''
   \<and> (\<exists>c. parseControllerLabels (\<lambda>s. s) (native_container ''basic'' [])
              (native_labels ''basic'' []) = Inr c \<and> cc_EndpointName c = ''staging'')
   \<and> (\<exists>c. ParseContainer True (\<lambda>s. s) (native_container ''basic'' []) = Inr c
          \<and> cc_ParseMode c = ''controller'' \<and> cc_EndpointName c = ''staging'')
   \<and> map_of badrule_labels ControllerEndpointLabel = None
   \<and> (\<exists>c. parseControllerLabels (\<lambda>s. s) badrule_container badrule_labels = Inr c
          \<and> cc_EndpointName c = ''default'')"
proof -
  have a: "map_of traefik_labels ControllerEndpointLabel = Some ''staging''"
    by (simp add: traefik_labels_def label_defs)
  have b: "\<not> isl (parseTraefikLabels (\<lambda>s. s) traefik_container traefik_labels)"
    by code_simp
  then have b': "parseTraefikLabels (\<lambda>s. s) traefik_container traefik_labels
       = Inr (projr (parseTraefikLabels (\<lambda>s. s) traefik_container traefik_labels))"
    by simp
  have t: "\<not> isl (ParseContainer True (\<lambda>s. s) traefik_container)" by code_simp
  then have t': "ParseContainer True (\<lambda>s. s) traefik_container
       = Inr (projr (ParseContainer True (\<lambda>s. s) traefik_container))"
    by simp
  have tm: "cc_ParseMode (projr (ParseContainer True (\<lambda>s. s) traefik_container)) = ''traefik''"
    by code_simp
  have n: "native_applicable (\<lambda>s. s) (native_container ''basic'' []) (native_labels ''basic'' [])"
    by code_simp
  have nl: "info_Labels (native_container ''basic'' []) = Some (native_labels ''basic'' [])"
    by (simp add: native_container_def)
  have ne: "map_of (native_labels ''basic'' []) ControllerEndpointLabel = Some ''staging''"
    by (simp add: native_labels_def label_defs)
  have d: "native_applicable (\<lambda>s. s) badrule_container badrule_labels" by code_simp
  have de: "map_of badrule_labels ControllerEndpointLabel = None"
    by (simp add: badrule_labels_def label_defs)
  have 1: "cc_EndpointName (projr (parseTraefikLabels (\<lambda>s. s) traefik_container traefik_labels))
       = ''default''"
    using b' traefik_endpoint_default[of "\<lambda>s. s" traefik_container traefik_labels
        "projr (parseTraefikLabels (\<lambda>s. s) traefik_container traefik_labels)"]
    by blast
  have 2: "cc_EndpointName (projr (ParseContainer True (\<lambda>s. s) traefik_container)) = ''default''"
    using t' tm traefik_endpoint_default[of "\<lambda>s. s" traefik_container traefik_labels
        "projr (ParseContainer True (\<lambda>s. s) traefik_container)" True]
    by (simp add: TraefikMode_def)
  have 3: "\<exists>c. parseControllerLabels (\<lambda>s. s) (native_container ''basic'' [])
              (native_labels ''basic'' []) = Inr c \<and> cc_EndpointName c = ''staging''"
    using n ne traefik_endpoint_default[of "\<lambda>s. s" "native_container ''basic'' []"
        "native_labels ''basic'' []"]
    by simp
  have 4: "\<exists>c. ParseContainer True (\<lambda>s. s) (native_container ''basic'' []) = Inr c
          \<and> cc_ParseMode c = ''controller'' \<and> cc_EndpointName c = ''staging''"
    using n nl ne traefik_endpoint_default[of "\<lambda>s. s" "native_container ''basic'' []"
        "native_labels ''basic'' []" _ True]
    by simp
  have 5: "\<exists>c. parseControllerLabels (\<lambda>s. s) badrule_container badrule_labels = Inr c
          \<and> cc_EndpointName c = ''default''"
    using d de traefik_endpoint_default[of "\<lambda>s. s" badrule_container badrule_labels]
    by simp
  show ?thesis using a b 1 2 tm ne 3 4 de 5 by blast
qed


section \<open>Compound rule expressions\<close>

lemma match_here_iff_at: "(\<exists>v. match_here kw s = Some v) \<longleftrightarrow> matches_at kw s"
proof
  assume "\<exists>v. match_here kw s = Some v"
  then show "matches_at kw s" using match_here_shape[of kw s] unfolding matches_at_def by blast
next
  assume "matches_at kw s"
  then show "\<exists>v. match_here kw s = Some v"
    unfolding matches_at_def using match_here_atom by blast
qed

lemma matches_occurs: "matches kw r \<longleftrightarrow> (\<exists>v. occurs kw v r)"
  unfolding matches_def occurs_def by blast

lemma find_occurs: "FindStringSubmatch kw r = Some v \<Longrightarrow> occurs kw v r"
proof -
  assume "FindStringSubmatch kw r = Some v"
  then obtain pre t where "r = pre @ t" "match_here kw t = Some v"
    using find_Some_split by blast
  then show ?thesis using match_here_shape[of kw t v] unfolding occurs_def by blast
qed

text \<open>The leftmost match gives the value.\<close>

lemma find_leftmost:
  assumes "is_blank ws1" "is_blank ws2" "is_value v"
    and "\<forall>a b. pre = a @ b \<and> b \<noteq> [] \<longrightarrow> \<not> matches_at kw (b @ rule_atom kw ws1 v ws2 @ post)"
  shows "FindStringSubmatch kw (pre @ rule_atom kw ws1 v ws2 @ post) = Some v"
  using assms(4)
proof (induction pre)
  case Nil
  show ?case using match_here_atom[OF assms(1-3), of kw post] by (simp add: find_match)
next
  case (Cons c pre)
  have "\<not> matches_at kw ((c # pre) @ rule_atom kw ws1 v ws2 @ post)"
    using Cons.prems by blast
  then have m: "match_here kw (c # pre @ rule_atom kw ws1 v ws2 @ post) = None"
    using match_here_iff_at[of kw "c # pre @ rule_atom kw ws1 v ws2 @ post"]
    by (cases "match_here kw (c # pre @ rule_atom kw ws1 v ws2 @ post)") auto
  have "\<forall>a b. pre = a @ b \<and> b \<noteq> [] \<longrightarrow> \<not> matches_at kw (b @ rule_atom kw ws1 v ws2 @ post)"
  proof (intro allI impI)
    fix a b assume "pre = a @ b \<and> b \<noteq> []"
    then have "c # pre = (c # a) @ b \<and> b \<noteq> []" by simp
    then show "\<not> matches_at kw (b @ rule_atom kw ws1 v ws2 @ post)" using Cons.prems by blast
  qed
  then have "FindStringSubmatch kw (pre @ rule_atom kw ws1 v ws2 @ post) = Some v"
    by (rule Cons.IH)
  then show ?case using m by simp
qed

text \<open>
  C4. A compound expression is not rejected. The patterns are not anchored, so the
  expression \<^verbatim>\<open>Host(`a.example.com`) && Path(`/api`)\<close> parses as the Host function alone.
\<close>

theorem parseRule_compound_counterexample:
  "parseRule (rule_atom ''Host'' [] ''a.example.com'' [] @ '' && ''
              @ rule_atom ''Path'' [] ''/api'' [])
   = Inr (''host_matches'', ''a.example.com'')"
  by (simp add: parseRule_def eval_rule)

text \<open>
  C4, as the code behaves, for every string \<open>r\<close>: if a well-formed Host function
  occurs anywhere in \<open>r\<close>, the result is \<open>host_matches\<close> with the value of an
  occurrence of Host, the leftmost one; if none does and a well-formed PathPrefix
  function occurs, the result is \<open>path_beg\<close> with the value of an occurrence of
  PathPrefix (also when a Path function stands before it); if neither does and a
  well-formed Path function occurs, the result is \<open>path\<close> with the value of an
  occurrence of Path. The rest of the expression is ignored. The parser fails, with the
  error for an unsupported rule, exactly when none of the three functions occurs.
\<close>

theorem parseRule_compound:
  "(matches ''Host'' r
      \<longrightarrow> (\<exists>w. parseRule r = Inr (''host_matches'', w) \<and> occurs ''Host'' w r))
   \<and> (\<not> matches ''Host'' r \<and> matches ''PathPrefix'' r
      \<longrightarrow> (\<exists>w. parseRule r = Inr (''path_beg'', w) \<and> occurs ''PathPrefix'' w r))
   \<and> (\<not> matches ''Host'' r \<and> \<not> matches ''PathPrefix'' r \<and> matches ''Path'' r
      \<longrightarrow> (\<exists>w. parseRule r = Inr (''path'', w) \<and> occurs ''Path'' w r))
   \<and> ((\<exists>e. parseRule r = Inl e)
      \<longleftrightarrow> \<not> matches ''Host'' r \<and> \<not> matches ''PathPrefix'' r \<and> \<not> matches ''Path'' r)
   \<and> (\<not> matches ''Host'' r \<and> \<not> matches ''PathPrefix'' r \<and> \<not> matches ''Path'' r
      \<longrightarrow> parseRule r = Inl (UnsupportedRule r))
   \<and> (is_blank ws1 \<and> is_blank ws2 \<and> is_value v
        \<and> (\<forall>a b. pre = a @ b \<and> b \<noteq> []
               \<longrightarrow> \<not> matches_at ''Host'' (b @ rule_atom ''Host'' ws1 v ws2 @ post))
      \<longrightarrow> parseRule (pre @ rule_atom ''Host'' ws1 v ws2 @ post) = Inr (''host_matches'', v))
   \<and> (is_blank ws1 \<and> is_blank ws2 \<and> is_value v
      \<longrightarrow> parseRule (rule_atom ''Host'' ws1 v ws2 @ post) = Inr (''host_matches'', v))"
proof -
  have a: "matches ''Host'' r
      \<longrightarrow> (\<exists>w. parseRule r = Inr (''host_matches'', w) \<and> occurs ''Host'' w r)"
  proof
    assume "matches ''Host'' r"
    then obtain w where w: "FindStringSubmatch ''Host'' r = Some w"
      using find_iff_matches by blast
    then have "parseRule r = Inr (''host_matches'', w)" by (simp add: parseRule_def)
    then show "\<exists>w. parseRule r = Inr (''host_matches'', w) \<and> occurs ''Host'' w r"
      using find_occurs[OF w] by blast
  qed
  have b: "\<not> matches ''Host'' r \<and> matches ''PathPrefix'' r
      \<longrightarrow> (\<exists>w. parseRule r = Inr (''path_beg'', w) \<and> occurs ''PathPrefix'' w r)"
  proof
    assume h: "\<not> matches ''Host'' r \<and> matches ''PathPrefix'' r"
    then have n: "FindStringSubmatch ''Host'' r = None" using find_None_iff by blast
    obtain w where w: "FindStringSubmatch ''PathPrefix'' r = Some w"
      using h find_iff_matches by blast
    have "parseRule r = Inr (''path_beg'', w)" using n w by (simp add: parseRule_def)
    then show "\<exists>w. parseRule r = Inr (''path_beg'', w) \<and> occurs ''PathPrefix'' w r"
      using find_occurs[OF w] by blast
  qed
  have c: "\<not> matches ''Host'' r \<and> \<not> matches ''PathPrefix'' r \<and> matches ''Path'' r
      \<longrightarrow> (\<exists>w. parseRule r = Inr (''path'', w) \<and> occurs ''Path'' w r)"
  proof
    assume h: "\<not> matches ''Host'' r \<and> \<not> matches ''PathPrefix'' r \<and> matches ''Path'' r"
    then have n: "FindStringSubmatch ''Host'' r = None"
      "FindStringSubmatch ''PathPrefix'' r = None" using find_None_iff by blast+
    obtain w where w: "FindStringSubmatch ''Path'' r = Some w"
      using h find_iff_matches by blast
    have "parseRule r = Inr (''path'', w)" using n w by (simp add: parseRule_def)
    then show "\<exists>w. parseRule r = Inr (''path'', w) \<and> occurs ''Path'' w r"
      using find_occurs[OF w] by blast
  qed
  have e: "\<not> matches ''Host'' r \<and> \<not> matches ''PathPrefix'' r \<and> \<not> matches ''Path'' r
      \<longrightarrow> parseRule r = Inl (UnsupportedRule r)"
    using find_None_iff[of "''Host''" r] find_None_iff[of "''PathPrefix''" r]
      find_None_iff[of "''Path''" r]
    by (auto simp: parseRule_def)
  have d: "(\<exists>e. parseRule r = Inl e)
      \<longleftrightarrow> \<not> matches ''Host'' r \<and> \<not> matches ''PathPrefix'' r \<and> \<not> matches ''Path'' r"
    using a b c e by (metis Inl_Inr_False)
  have f: "is_blank ws1 \<and> is_blank ws2 \<and> is_value v
        \<and> (\<forall>a b. pre = a @ b \<and> b \<noteq> []
               \<longrightarrow> \<not> matches_at ''Host'' (b @ rule_atom ''Host'' ws1 v ws2 @ post))
      \<longrightarrow> parseRule (pre @ rule_atom ''Host'' ws1 v ws2 @ post) = Inr (''host_matches'', v)"
  proof
    assume h: "is_blank ws1 \<and> is_blank ws2 \<and> is_value v
        \<and> (\<forall>a b. pre = a @ b \<and> b \<noteq> []
               \<longrightarrow> \<not> matches_at ''Host'' (b @ rule_atom ''Host'' ws1 v ws2 @ post))"
    then have "FindStringSubmatch ''Host'' (pre @ rule_atom ''Host'' ws1 v ws2 @ post) = Some v"
      using find_leftmost[of ws1 ws2 v pre "''Host''" post] by blast
    then show "parseRule (pre @ rule_atom ''Host'' ws1 v ws2 @ post) = Inr (''host_matches'', v)"
      by (simp add: parseRule_def)
  qed
  have g: "is_blank ws1 \<and> is_blank ws2 \<and> is_value v
      \<longrightarrow> parseRule (rule_atom ''Host'' ws1 v ws2 @ post) = Inr (''host_matches'', v)"
  proof
    assume h: "is_blank ws1 \<and> is_blank ws2 \<and> is_value v"
    then have "FindStringSubmatch ''Host'' (rule_atom ''Host'' ws1 v ws2 @ post) = Some v"
      using match_here_atom[of ws1 ws2 v "''Host''" post] by (simp add: find_match)
    then show "parseRule (rule_atom ''Host'' ws1 v ws2 @ post) = Inr (''host_matches'', v)"
      by (simp add: parseRule_def)
  qed
  show ?thesis using a b c d e f g by blast
qed

theorem parseRule_compound_witness:
  "parseRule (rule_atom ''Path'' [] ''/a'' [] @ '' '' @ rule_atom ''PathPrefix'' [] ''/b'' [])
     = Inr (''path_beg'', ''/b'')
   \<and> parseRule (rule_atom ''Path'' [] ''/a'' [] @ '' && '' @ rule_atom ''Host'' [] ''h'' [])
     = Inr (''host_matches'', ''h'')
   \<and> parseRule (rule_atom ''Host'' [] ''a.example.com'' [] @ '' || Path(/x)'')
     = Inr (''host_matches'', ''a.example.com'')
   \<and> parseRule ''Host(a) && Path(b)'' = Inl (UnsupportedRule ''Host(a) && Path(b)'')"
proof -
  let ?r1 = "rule_atom ''Path'' [] ''/a'' [] @ '' '' @ rule_atom ''PathPrefix'' [] ''/b'' []"
  let ?r2 = "rule_atom ''Path'' [] ''/a'' [] @ '' && '' @ rule_atom ''Host'' [] ''h'' []"
  let ?r4 = "''Host(a) && Path(b)''"
  have w: "is_blank []" "is_value ''a.example.com''"
    by (simp_all add: is_blank_def is_value_def)
  have n1: "\<not> matches ''Host'' ?r1"
    unfolding find_None_iff[symmetric] by (simp add: eval_rule)
  have m1: "matches ''PathPrefix'' ?r1"
    unfolding find_iff_matches[symmetric] by (simp add: eval_rule)
  obtain x where x: "parseRule ?r1 = Inr (''path_beg'', x)"
    using parseRule_compound[of ?r1] n1 m1 by blast
  have "FindStringSubmatch ''PathPrefix'' ?r1 = Some ''/b''" by (simp add: eval_rule)
  then have 1: "parseRule ?r1 = Inr (''path_beg'', ''/b'')"
    using x n1 by (simp add: parseRule_def find_None_iff[symmetric])
  have m2: "matches ''Host'' ?r2"
    unfolding find_iff_matches[symmetric] by (simp add: eval_rule)
  obtain y where y: "parseRule ?r2 = Inr (''host_matches'', y)"
    using parseRule_compound[of ?r2] m2 by blast
  have "FindStringSubmatch ''Host'' ?r2 = Some ''h''" by (simp add: eval_rule)
  then have 2: "parseRule ?r2 = Inr (''host_matches'', ''h'')"
    using y by (simp add: parseRule_def)
  have 3: "parseRule (rule_atom ''Host'' [] ''a.example.com'' [] @ '' || Path(/x)'')
     = Inr (''host_matches'', ''a.example.com'')"
    using parseRule_compound[of _ "[]" "[]" "''a.example.com''" _ "'' || Path(/x)''"] w
    by blast
  have n4: "\<not> matches ''Host'' ?r4" "\<not> matches ''PathPrefix'' ?r4" "\<not> matches ''Path'' ?r4"
    unfolding find_None_iff[symmetric] by (simp_all add: eval_rule)
  have 4: "parseRule ?r4 = Inl (UnsupportedRule ?r4)"
    using parseRule_compound[of ?r4] n4 by blast
  show ?thesis using 1 2 3 4 by blast
qed


section \<open>Health checks in the translation\<close>

lemma backend_under_ready:
  assumes "native_ready info labels"
  shows "parseControllerBackendConfig L info labels =
     (case configureHealthCheck L
             (empty_BackendConfig\<lparr>
                bc_Name := (if getStringLabel labels ControllerBackendNameLabel [] = []
                            then sanitizeName (info_Name info) @ ''-backend''
                            else getStringLabel labels ControllerBackendNameLabel []),
                bc_ServerName := getStringLabel labels ControllerBackendServerNameLabel
                                   (sanitizeName (info_Name info)),
                bc_Port := getStringLabel labels ControllerBackendPortLabel [],
                bc_Address := GetContainerIP info,
                bc_CheckType := check_type_of labels\<rparr>) labels of
        Inl e \<Rightarrow> Inl (HealthCheckFailed e)
      | Inr c \<Rightarrow> Inr (c\<lparr>bc_BackendPassThru := set_host_header (bc_Address c)\<rparr>))"
  using assms
  by (auto simp: native_ready_def parseControllerBackendConfig_def Let_def check_type_of_def)

lemma native_fails:
  assumes r: "native_ready info labels"
    and f: "\<And>c. bc_CheckType c = check_type_of labels \<Longrightarrow> configureHealthCheck L c labels = Inl e"
  shows "parseControllerLabels L info labels = Inl (BackendConfigFailed (HealthCheckFailed e))"
proof -
  have "parseControllerBackendConfig L info labels = Inl (HealthCheckFailed e)"
    unfolding backend_under_ready[OF r] by (simp add: f)
  then show ?thesis
    using r by (simp add: parseControllerLabels_def native_ready_def validateRequiredLabels_def)
qed

lemma traefik_fails:
  assumes f: "\<And>c. bc_CheckType c = check_type_of labels \<Longrightarrow> configureHealthCheck L c labels = Inl e"
  shows "\<exists>x. parseTraefikLabels L info labels = Inl x"
proof -
  have "\<exists>x. parseTraefikBackendConfig L info labels = Inl x"
    by (simp add: parseTraefikBackendConfig_def Let_def f check_type_of_def split: prod.splits)
  then show ?thesis
    by (auto simp: parseTraefikLabels_def split: option.splits)
qed

lemma skipped:
  assumes l: "info_Labels info = Some labels"
    and n: "parseControllerLabels L info labels = Inl x"
    and t: "\<exists>y. parseTraefikLabels L info labels = Inl y"
  shows "ParseContainer tcm L info = Inl NoValidPfSenseLabels"
    and "SyncContainer m L tr info env = (None, env)"
proof -
  show p: "ParseContainer tcm L info = Inl NoValidPfSenseLabels" for tcm
    using l n t by (auto simp: ParseContainer_def HAProxyParser_ParseContainer_def)
  show "SyncContainer m L tr info env = (None, env)"
    by (simp add: SyncContainer_def p)
qed

lemma native_succeeds:
  assumes r: "native_ready info labels" and l: "info_Labels info = Some labels"
    and ok: "ToLower L (check_type_of labels) = ''none'' \<or> ToLower L (check_type_of labels) = ''basic''
       \<or> (ToLower L (check_type_of labels) = ''http'' \<and> health_path_of labels \<noteq> [])"
  shows "\<exists>cfg. parseControllerLabels L info labels = Inr cfg
      \<and> ParseContainer tcm L info = Inr (cfg\<lparr>cc_ParseMode := ''controller''\<rparr>)
      \<and> parseControllerBackendConfig L info labels = Inr (cc_BackendConfig cfg)"
proof -
  have "native_applicable L info labels"
    using r ok by (auto simp: native_applicable_def native_ready_def check_type_of_def
        health_path_of_def Let_def NoneValue_def BasicValue_def HTTPValue_def)
  then obtain cfg where c: "parseControllerLabels L info labels = Inr cfg"
    using parseControllerLabels_iff by blast
  then have b: "parseControllerBackendConfig L info labels = Inr (cc_BackendConfig cfg)"
    by (auto simp: parseControllerLabels_def Let_def split: if_splits option.splits sum.splits)
  have "ParseContainer tcm L info = Inr (cfg\<lparr>cc_ParseMode := ''controller''\<rparr>)"
    using l c by (simp add: ParseContainer_def HAProxyParser_ParseContainer_def)
  then show ?thesis using c b by blast
qed


lemma backend_health_fields:
  assumes r: "native_ready info labels"
    and b: "parseControllerBackendConfig L info labels = Inr b"
  shows "bc_CheckType b = check_type_of labels"
    and "ToLower L (check_type_of labels) = ''none'' \<or> ToLower L (check_type_of labels) = ''basic''
           \<Longrightarrow> bc_HealthCheckPath b = [] \<and> bc_HealthCheckMethod b = []
               \<and> bc_HealthCheckVersion b = []"
    and "ToLower L (check_type_of labels) = ''http''
           \<Longrightarrow> bc_HealthCheckPath b = health_path_of labels
               \<and> bc_HealthCheckMethod b =
                   (case map_of labels ControllerBackendHealthMethodLabel of
                      Some m \<Rightarrow> m | None \<Rightarrow> ''OPTIONS'')
               \<and> bc_HealthCheckVersion b = health_check_version (GetContainerIP info)"
  using b unfolding backend_under_ready[OF r]
  by (auto simp: configureHealthCheck_cases empty_BackendConfig_def health_path_of_def
      getStringLabel_def split: if_splits sum.splits)

lemma configure_fails_path:
  assumes "ToLower L (check_type_of labels) = ''http''" "health_path_of labels = []"
    and "bc_CheckType c = check_type_of labels"
  shows "configureHealthCheck L c labels = Inl HealthCheckPathRequired"
  using assms by (simp add: configureHealthCheck_cases health_path_of_def)

lemma configure_fails_type:
  assumes "ToLower L (check_type_of labels) \<noteq> ''none''"
    "ToLower L (check_type_of labels) \<noteq> ''basic''" "ToLower L (check_type_of labels) \<noteq> ''http''"
    and "bc_CheckType c = check_type_of labels"
  shows "configureHealthCheck L c labels = Inl (InvalidCheckType (check_type_of labels))"
  using assms by (simp add: configureHealthCheck_cases)

lemma native_translated:
  assumes r: "native_ready info labels" and l: "info_Labels info = Some labels"
    and ok: "ToLower L (check_type_of labels) = ''none'' \<or> ToLower L (check_type_of labels) = ''basic''
       \<or> (ToLower L (check_type_of labels) = ''http'' \<and> health_path_of labels \<noteq> [])"
  obtains cfg where "parseControllerLabels L info labels = Inr cfg"
    and "ParseContainer tcm L info = Inr (cfg\<lparr>cc_ParseMode := ''controller''\<rparr>)"
    and "parseControllerBackendConfig L info labels = Inr (cc_BackendConfig cfg)"
  by (insert native_succeeds[OF r l ok, of tcm], elim exE conjE, rule that)

lemma native_none_basic:
  assumes r: "native_ready info labels" and l: "info_Labels info = Some labels"
    and h: "ToLower L (check_type_of labels) = ''none'' \<or> ToLower L (check_type_of labels) = ''basic''"
  shows "\<exists>cfg. parseControllerLabels L info labels = Inr cfg
             \<and> ParseContainer tcm L info = Inr (cfg\<lparr>cc_ParseMode := ''controller''\<rparr>)
             \<and> bc_CheckType (cc_BackendConfig cfg) = check_type_of labels
             \<and> bc_HealthCheckPath (cc_BackendConfig cfg) = []
             \<and> bc_HealthCheckMethod (cc_BackendConfig cfg) = []
             \<and> bc_HealthCheckVersion (cc_BackendConfig cfg) = []"
proof -
  have ok: "ToLower L (check_type_of labels) = ''none'' \<or> ToLower L (check_type_of labels) = ''basic''
       \<or> (ToLower L (check_type_of labels) = ''http'' \<and> health_path_of labels \<noteq> [])"
    using h by (rule disjE) (rule disjI1, assumption, rule disjI2, rule disjI1, assumption)
  obtain cfg where c: "parseControllerLabels L info labels = Inr cfg"
    "ParseContainer tcm L info = Inr (cfg\<lparr>cc_ParseMode := ''controller''\<rparr>)"
    "parseControllerBackendConfig L info labels = Inr (cc_BackendConfig cfg)"
    by (rule native_translated[OF r l ok, of tcm])
  show ?thesis
    by (rule exI[of _ cfg])
      (simp only: c backend_health_fields(1)[OF r c(3)] backend_health_fields(2)[OF r c(3) h]
        simp_thms)
qed

lemma native_http:
  assumes r: "native_ready info labels" and l: "info_Labels info = Some labels"
    and t: "ToLower L (check_type_of labels) = ''http''" and p: "health_path_of labels \<noteq> []"
  shows "\<exists>cfg. parseControllerLabels L info labels = Inr cfg
             \<and> ParseContainer tcm L info = Inr (cfg\<lparr>cc_ParseMode := ''controller''\<rparr>)
             \<and> bc_CheckType (cc_BackendConfig cfg) = check_type_of labels
             \<and> bc_HealthCheckPath (cc_BackendConfig cfg) = health_path_of labels
             \<and> bc_HealthCheckMethod (cc_BackendConfig cfg) =
                 (case map_of labels ControllerBackendHealthMethodLabel of
                    Some meth \<Rightarrow> meth | None \<Rightarrow> ''OPTIONS'')
             \<and> bc_HealthCheckVersion (cc_BackendConfig cfg)
                 = health_check_version (GetContainerIP info)"
proof -
  have ok: "ToLower L (check_type_of labels) = ''none'' \<or> ToLower L (check_type_of labels) = ''basic''
       \<or> (ToLower L (check_type_of labels) = ''http'' \<and> health_path_of labels \<noteq> [])"
    using t p by (intro disjI2 conjI)
  obtain cfg where c: "parseControllerLabels L info labels = Inr cfg"
    "ParseContainer tcm L info = Inr (cfg\<lparr>cc_ParseMode := ''controller''\<rparr>)"
    "parseControllerBackendConfig L info labels = Inr (cc_BackendConfig cfg)"
    by (rule native_translated[OF r l ok, of tcm])
  show ?thesis
    by (rule exI[of _ cfg])
      (simp only: c backend_health_fields(1)[OF r c(3)] backend_health_fields(3)[OF r c(3) t]
        simp_thms)
qed

lemma native_rejected:
  assumes r: "native_ready info labels" and l: "info_Labels info = Some labels"
    and f: "\<And>c. bc_CheckType c = check_type_of labels \<Longrightarrow> configureHealthCheck L c labels = Inl e"
  shows "parseControllerLabels L info labels = Inl (BackendConfigFailed (HealthCheckFailed e))
          \<and> ParseContainer tcm L info = Inl NoValidPfSenseLabels
          \<and> SyncContainer m L tr info env = (None, env)"
proof -
  have n: "parseControllerLabels L info labels = Inl (BackendConfigFailed (HealthCheckFailed e))"
    by (rule native_fails[OF r]) (rule f)
  have t: "\<exists>y. parseTraefikLabels L info labels = Inl y"
    by (rule traefik_fails) (rule f)
  show ?thesis using n skipped(1)[OF l n t] skipped(2)[OF l n t] by simp
qed

text \<open>
  C6. A check type other than \<open>none\<close>, \<open>basic\<close> and \<open>http\<close> does not always make the
  translation fail: the value is lower-cased first, so a container with the check type
  \<open>BASIC\<close> is translated, with the health-check fields empty.
\<close>

theorem configureHealthCheck_counterexample:
  "''BASIC'' \<noteq> ''none'' \<and> ''BASIC'' \<noteq> ''basic'' \<and> ''BASIC'' \<noteq> ''http''
   \<and> configureHealthCheck (\<lambda>s. s) (empty_BackendConfig\<lparr>bc_CheckType := ''BASIC''\<rparr>) []
       = Inr (empty_BackendConfig\<lparr>bc_CheckType := ''BASIC''\<rparr>)
   \<and> check_type_of (native_labels ''BASIC'' []) = ''BASIC''
   \<and> \<not> isl (ParseContainer False (\<lambda>s. s) (native_container ''BASIC'' []))
   \<and> bc_CheckType (cc_BackendConfig
         (projr (ParseContainer False (\<lambda>s. s) (native_container ''BASIC'' [])))) = ''BASIC''
   \<and> bc_HealthCheckPath (cc_BackendConfig
         (projr (ParseContainer False (\<lambda>s. s) (native_container ''BASIC'' [])))) = []"
  by code_simp

text \<open>
  C6, as the code behaves, for a container that meets the other conditions of the native
  schema. The check type is compared after \<^verbatim>\<open>strings.ToLower\<close>. Lower case \<open>none\<close> or
  \<open>basic\<close>: the container is translated and path, method and version are empty. Lower
  case \<open>http\<close> with an empty path label: the native translation fails with the
  missing-path error, wrapped by the backend parser and the label parser. Lower case
  \<open>http\<close> with a path: the container is translated, the method is the label
  (\<open>OPTIONS\<close> when the label is absent) and the version is \<^verbatim>\<open>HTTP/1.1\r\nHost:\ \<close>
  followed by the backend address. Any other value: the native translation fails with the
  error that names the value as written, wrapped in the same way. In the two failing
  cases \<^verbatim>\<open>ParseContainer\<close> reports only that no valid labels were found, in either
  compatibility setting, and \<^verbatim>\<open>SyncContainer\<close> returns no error and sends nothing. The
  last conjuncts state the rule for \<^verbatim>\<open>configureHealthCheck\<close> on every backend
  configuration, which both schemas call.
\<close>

theorem health_check_translation:
  assumes r: "native_ready info labels" and l: "info_Labels info = Some labels"
  shows
  "(ToLower L (check_type_of labels) = ''none'' \<or> ToLower L (check_type_of labels) = ''basic''
      \<longrightarrow> (\<exists>cfg. parseControllerLabels L info labels = Inr cfg
             \<and> ParseContainer tcm L info = Inr (cfg\<lparr>cc_ParseMode := ''controller''\<rparr>)
             \<and> bc_CheckType (cc_BackendConfig cfg) = check_type_of labels
             \<and> bc_HealthCheckPath (cc_BackendConfig cfg) = []
             \<and> bc_HealthCheckMethod (cc_BackendConfig cfg) = []
             \<and> bc_HealthCheckVersion (cc_BackendConfig cfg) = []))
   \<and> (ToLower L (check_type_of labels) = ''http'' \<and> health_path_of labels = []
      \<longrightarrow> parseControllerLabels L info labels
             = Inl (BackendConfigFailed (HealthCheckFailed HealthCheckPathRequired))
          \<and> ParseContainer tcm L info = Inl NoValidPfSenseLabels
          \<and> SyncContainer m L tr info env = (None, env))
   \<and> (ToLower L (check_type_of labels) = ''http'' \<and> health_path_of labels \<noteq> []
      \<longrightarrow> (\<exists>cfg. parseControllerLabels L info labels = Inr cfg
             \<and> ParseContainer tcm L info = Inr (cfg\<lparr>cc_ParseMode := ''controller''\<rparr>)
             \<and> bc_CheckType (cc_BackendConfig cfg) = check_type_of labels
             \<and> bc_HealthCheckPath (cc_BackendConfig cfg) = health_path_of labels
             \<and> bc_HealthCheckMethod (cc_BackendConfig cfg) =
                 (case map_of labels ControllerBackendHealthMethodLabel of
                    Some meth \<Rightarrow> meth | None \<Rightarrow> ''OPTIONS'')
             \<and> bc_HealthCheckVersion (cc_BackendConfig cfg)
                 = health_check_version (GetContainerIP info)))
   \<and> (ToLower L (check_type_of labels) \<noteq> ''none'' \<and> ToLower L (check_type_of labels) \<noteq> ''basic''
        \<and> ToLower L (check_type_of labels) \<noteq> ''http''
      \<longrightarrow> parseControllerLabels L info labels
             = Inl (BackendConfigFailed (HealthCheckFailed
                      (InvalidCheckType (check_type_of labels))))
          \<and> ParseContainer tcm L info = Inl NoValidPfSenseLabels
          \<and> SyncContainer m L tr info env = (None, env))
   \<and> (ToLower L (bc_CheckType config) = ''none'' \<or> ToLower L (bc_CheckType config) = ''basic''
      \<longrightarrow> (\<exists>c. configureHealthCheck L config labels' = Inr c
               \<and> bc_HealthCheckPath c = [] \<and> bc_HealthCheckMethod c = []
               \<and> bc_HealthCheckVersion c = []))
   \<and> (ToLower L (bc_CheckType config) = ''http''
        \<and> getStringLabel labels' ControllerBackendHealthCheckLabel [] = []
      \<longrightarrow> configureHealthCheck L config labels' = Inl HealthCheckPathRequired)
   \<and> (ToLower L (bc_CheckType config) = ''http''
        \<and> getStringLabel labels' ControllerBackendHealthCheckLabel [] \<noteq> []
      \<longrightarrow> (\<exists>c. configureHealthCheck L config labels' = Inr c
               \<and> bc_HealthCheckPath c = getStringLabel labels' ControllerBackendHealthCheckLabel []
               \<and> bc_HealthCheckMethod c =
                   (case map_of labels' ControllerBackendHealthMethodLabel of
                      Some meth \<Rightarrow> meth | None \<Rightarrow> ''OPTIONS'')
               \<and> bc_HealthCheckVersion c = health_check_version (bc_Address config)))
   \<and> (ToLower L (bc_CheckType config) \<noteq> ''none'' \<and> ToLower L (bc_CheckType config) \<noteq> ''basic''
        \<and> ToLower L (bc_CheckType config) \<noteq> ''http''
      \<longrightarrow> configureHealthCheck L config labels' = Inl (InvalidCheckType (bc_CheckType config)))
   \<and> ToLower L ''none'' = ''none'' \<and> ToLower L ''basic'' = ''basic''
   \<and> ToLower L ''http'' = ''http''"
proof -
  let ?t = "ToLower L (check_type_of labels)"
  have a: "?t = ''none'' \<or> ?t = ''basic''
      \<longrightarrow> (\<exists>cfg. parseControllerLabels L info labels = Inr cfg
             \<and> ParseContainer tcm L info = Inr (cfg\<lparr>cc_ParseMode := ''controller''\<rparr>)
             \<and> bc_CheckType (cc_BackendConfig cfg) = check_type_of labels
             \<and> bc_HealthCheckPath (cc_BackendConfig cfg) = []
             \<and> bc_HealthCheckMethod (cc_BackendConfig cfg) = []
             \<and> bc_HealthCheckVersion (cc_BackendConfig cfg) = [])"
    by (rule impI) (rule native_none_basic[OF r l])
  have b: "?t = ''http'' \<and> health_path_of labels = []
      \<longrightarrow> parseControllerLabels L info labels
             = Inl (BackendConfigFailed (HealthCheckFailed HealthCheckPathRequired))
          \<and> ParseContainer tcm L info = Inl NoValidPfSenseLabels
          \<and> SyncContainer m L tr info env = (None, env)"
  proof (rule impI, elim conjE)
    assume t: "?t = ''http''" and p: "health_path_of labels = []"
    show "parseControllerLabels L info labels
             = Inl (BackendConfigFailed (HealthCheckFailed HealthCheckPathRequired))
          \<and> ParseContainer tcm L info = Inl NoValidPfSenseLabels
          \<and> SyncContainer m L tr info env = (None, env)"
      by (rule native_rejected[OF r l]) (rule configure_fails_path[OF t p])
  qed
  have c: "?t = ''http'' \<and> health_path_of labels \<noteq> []
      \<longrightarrow> (\<exists>cfg. parseControllerLabels L info labels = Inr cfg
             \<and> ParseContainer tcm L info = Inr (cfg\<lparr>cc_ParseMode := ''controller''\<rparr>)
             \<and> bc_CheckType (cc_BackendConfig cfg) = check_type_of labels
             \<and> bc_HealthCheckPath (cc_BackendConfig cfg) = health_path_of labels
             \<and> bc_HealthCheckMethod (cc_BackendConfig cfg) =
                 (case map_of labels ControllerBackendHealthMethodLabel of
                    Some meth \<Rightarrow> meth | None \<Rightarrow> ''OPTIONS'')
             \<and> bc_HealthCheckVersion (cc_BackendConfig cfg)
                 = health_check_version (GetContainerIP info))"
    by (rule impI, elim conjE) (rule native_http[OF r l])
  have d: "?t \<noteq> ''none'' \<and> ?t \<noteq> ''basic'' \<and> ?t \<noteq> ''http''
      \<longrightarrow> parseControllerLabels L info labels
             = Inl (BackendConfigFailed (HealthCheckFailed
                      (InvalidCheckType (check_type_of labels))))
          \<and> ParseContainer tcm L info = Inl NoValidPfSenseLabels
          \<and> SyncContainer m L tr info env = (None, env)"
  proof (rule impI, elim conjE)
    assume t: "?t \<noteq> ''none''" "?t \<noteq> ''basic''" "?t \<noteq> ''http''"
    show "parseControllerLabels L info labels
             = Inl (BackendConfigFailed (HealthCheckFailed
                      (InvalidCheckType (check_type_of labels))))
          \<and> ParseContainer tcm L info = Inl NoValidPfSenseLabels
          \<and> SyncContainer m L tr info env = (None, env)"
      by (rule native_rejected[OF r l]) (rule configure_fails_type[OF t])
  qed
  note e = configureHealthCheck_branches[of L config labels']
  show ?thesis
    by (rule conjI, rule a, rule conjI, rule b, rule conjI, rule c, rule conjI, rule d, rule e)
qed

theorem health_check_translation_witness:
  "parseControllerLabels (\<lambda>s. s) (native_container ''http'' []) (native_labels ''http'' [])
     = Inl (BackendConfigFailed (HealthCheckFailed HealthCheckPathRequired))
   \<and> ParseContainer True (\<lambda>s. s) (native_container ''http'' []) = Inl NoValidPfSenseLabels
   \<and> SyncContainer example_manager (\<lambda>s. s) (pfsense (baseURL example_client))
        (native_container ''http'' []) (start empty_remote) = (None, start empty_remote)
   \<and> parseControllerLabels (\<lambda>s. s) (native_container ''tcp'' []) (native_labels ''tcp'' [])
     = Inl (BackendConfigFailed (HealthCheckFailed (InvalidCheckType ''tcp'')))
   \<and> ParseContainer False (\<lambda>s. s) (native_container ''tcp'' []) = Inl NoValidPfSenseLabels
   \<and> (\<exists>cfg. parseControllerLabels (\<lambda>s. s) (native_container ''http'' ''/health'')
                (native_labels ''http'' ''/health'') = Inr cfg
          \<and> bc_HealthCheckPath (cc_BackendConfig cfg) = ''/health''
          \<and> bc_HealthCheckMethod (cc_BackendConfig cfg) = ''OPTIONS''
          \<and> bc_HealthCheckVersion (cc_BackendConfig cfg) = health_check_version ''172.17.0.2'')
   \<and> (\<exists>cfg. parseControllerLabels (\<lambda>s. s) (native_container ''none'' [])
                (native_labels ''none'' []) = Inr cfg
          \<and> bc_HealthCheckPath (cc_BackendConfig cfg) = []
          \<and> bc_HealthCheckMethod (cc_BackendConfig cfg) = []
          \<and> bc_HealthCheckVersion (cc_BackendConfig cfg) = [])"
proof -
  have r: "native_ready (native_container c p) (native_labels c p)" for c p
    by (simp add: native_ready_def native_container_def native_labels_def label_defs
        getStringLabel_def GetContainerIP_def example_network_def Atoi_def is_digit_def
        in_range_def byte_def digits_value_def rule_atom_def)
  have l: "info_Labels (native_container c p) = Some (native_labels c p)" for c p
    by (simp add: native_container_def)
  have ct: "check_type_of (native_labels c p) = c" for c p
    by (simp add: check_type_of_def native_labels_def getStringLabel_def label_defs)
  have hp: "health_path_of (native_labels c p) = p" for c p
    by (simp add: health_path_of_def native_labels_def getStringLabel_def label_defs)
  have me: "map_of (native_labels c p) ControllerBackendHealthMethodLabel = None" for c p
    by (simp add: native_labels_def label_defs)
  have ip: "GetContainerIP (native_container c p) = ''172.17.0.2''" for c p
    by (simp add: native_container_def GetContainerIP_def example_network_def)
  have tl: "ToLower (\<lambda>s. s) ''tcp'' = ''tcp''" "ToLower (\<lambda>s. s) ''http'' = ''http''"
    "ToLower (\<lambda>s. s) ''none'' = ''none''"
    by (simp_all add: ToLower_def lower_ascii_def in_range_def byte_def)
  note A = health_check_translation[where info = "native_container ''http'' []"
      and labels = "native_labels ''http'' []" and L = "\<lambda>s. s" and tcm = True
      and m = example_manager and tr = "pfsense (baseURL example_client)"
      and env = "start empty_remote", OF r l, THEN conjunct2, THEN conjunct1]
  note B = health_check_translation[where info = "native_container ''tcp'' []"
      and labels = "native_labels ''tcp'' []" and L = "\<lambda>s. s" and tcm = False
      and m = example_manager and tr = "pfsense (baseURL example_client)"
      and env = "start empty_remote",
      OF r l, THEN conjunct2, THEN conjunct2, THEN conjunct2, THEN conjunct1]
  note C = health_check_translation[where info = "native_container ''http'' ''/health''"
      and labels = "native_labels ''http'' ''/health''" and L = "\<lambda>s. s" and tcm = False,
      OF r l, THEN conjunct2, THEN conjunct2, THEN conjunct1]
  note D = health_check_translation[where info = "native_container ''none'' []"
      and labels = "native_labels ''none'' []" and L = "\<lambda>s. s" and tcm = False,
      OF r l, THEN conjunct1]
  have 1: "parseControllerLabels (\<lambda>s. s) (native_container ''http'' []) (native_labels ''http'' [])
     = Inl (BackendConfigFailed (HealthCheckFailed HealthCheckPathRequired))
   \<and> ParseContainer True (\<lambda>s. s) (native_container ''http'' []) = Inl NoValidPfSenseLabels
   \<and> SyncContainer example_manager (\<lambda>s. s) (pfsense (baseURL example_client))
        (native_container ''http'' []) (start empty_remote) = (None, start empty_remote)"
    using A by (simp add: ct hp tl)
  have 2: "parseControllerLabels (\<lambda>s. s) (native_container ''tcp'' []) (native_labels ''tcp'' [])
     = Inl (BackendConfigFailed (HealthCheckFailed (InvalidCheckType ''tcp'')))
   \<and> ParseContainer False (\<lambda>s. s) (native_container ''tcp'' []) = Inl NoValidPfSenseLabels"
    using B by (simp add: ct hp tl)
  have 3: "\<exists>cfg. parseControllerLabels (\<lambda>s. s) (native_container ''http'' ''/health'')
                (native_labels ''http'' ''/health'') = Inr cfg
          \<and> bc_HealthCheckPath (cc_BackendConfig cfg) = ''/health''
          \<and> bc_HealthCheckMethod (cc_BackendConfig cfg) = ''OPTIONS''
          \<and> bc_HealthCheckVersion (cc_BackendConfig cfg) = health_check_version ''172.17.0.2''"
    using C by (simp add: ct hp tl me ip) blast
  have 4: "\<exists>cfg. parseControllerLabels (\<lambda>s. s) (native_container ''none'' [])
                (native_labels ''none'' []) = Inr cfg
          \<and> bc_HealthCheckPath (cc_BackendConfig cfg) = []
          \<and> bc_HealthCheckMethod (cc_BackendConfig cfg) = []
          \<and> bc_HealthCheckVersion (cc_BackendConfig cfg) = []"
    using D by (simp add: ct hp tl) blast
  show ?thesis using 1 2 3 4 by blast
qed


section \<open>Two containers and one frontend\<close>























end
